theory Spec2Isabelle
  imports Main
begin

section \<open>Python values\<close>

text \<open>
  A Python \<open>str\<close> is a sequence of Unicode code points; a code point is a natural number.
  String constants of the source are written \<open>ustr ''...''\<close>.
\<close>

type_synonym pystr = "nat list"

definition ustr :: "string \<Rightarrow> pystr" where
  "ustr s = map of_char s"

text \<open>
  The exceptions the hunters can meet. \<open>RequestException\<close> stands for every transport
  failure of the HTTP library (connection refused, timeout, TLS error, invalid URL).
  All of them are subclasses of Python's \<open>Exception\<close>.
\<close>

datatype error =
  RequestException | ValueError | KeyError | TypeError | AttributeError | IndexError
  | UnicodeDecodeError

definition and_then :: "error + 'a \<Rightarrow> ('a \<Rightarrow> error + 'b) \<Rightarrow> error + 'b" where
  "and_then r f = (case r of Inl e \<Rightarrow> Inl e | Inr x \<Rightarrow> f x)"

text \<open>
  The two properties of the Unicode character database that the source reaches through
  \<open>re\<close> (\<open>\w\<close>) and through \<open>repr\<close>. They are consulted for code points from 128 on
  only; the ASCII range is written out below.
\<close>

record unicode_db =
  isalnum :: "nat \<Rightarrow> bool"
  isprintable :: "nat \<Rightarrow> bool"

text \<open>
  What \<open>response.json()\<close> can return: the values of the \<open>json\<close> decoder. A dictionary
  keeps its items in insertion order, with distinct keys. JSON numbers are integers here:
  the source only tests a number for truth or fails on subscripting it.
\<close>

datatype pyval =
  PNone | PBool bool | PInt int | PStr pystr | PList "pyval list"
  | PDict "(pystr \<times> pyval) list"

fun truthy :: "pyval \<Rightarrow> bool" where
  "truthy PNone = False"
| "truthy (PBool b) = b"
| "truthy (PInt i) = (i \<noteq> 0)"
| "truthy (PStr s) = (s \<noteq> [])"
| "truthy (PList xs) = (xs \<noteq> [])"
| "truthy (PDict kvs) = (kvs \<noteq> [])"

text \<open>\<open>v[k]\<close> for a string key \<open>k\<close>.\<close>

fun getitem :: "pyval \<Rightarrow> pystr \<Rightarrow> error + pyval" where
  "getitem (PDict kvs) k = (case map_of kvs k of None \<Rightarrow> Inl KeyError | Some v \<Rightarrow> Inr v)"
| "getitem PNone k = Inl TypeError"
| "getitem (PBool b) k = Inl TypeError"
| "getitem (PInt i) k = Inl TypeError"
| "getitem (PStr s) k = Inl TypeError"
| "getitem (PList xs) k = Inl TypeError"

text \<open>\<open>v.get(k, d)\<close>: only a dictionary has the method.\<close>

fun py_get :: "pyval \<Rightarrow> pystr \<Rightarrow> pyval \<Rightarrow> error + pyval" where
  "py_get (PDict kvs) k d = Inr (case map_of kvs k of None \<Rightarrow> d | Some v \<Rightarrow> v)"
| "py_get PNone k d = Inl AttributeError"
| "py_get (PBool b) k d = Inl AttributeError"
| "py_get (PInt i) k d = Inl AttributeError"
| "py_get (PStr s) k d = Inl AttributeError"
| "py_get (PList xs) k d = Inl AttributeError"

text \<open>The elements a \<open>for\<close> loop (or \<open>filter\<close>) draws from a value.\<close>

fun py_iter :: "pyval \<Rightarrow> error + pyval list" where
  "py_iter (PList xs) = Inr xs"
| "py_iter (PDict kvs) = Inr (map (\<lambda>kv. PStr (fst kv)) kvs)"
| "py_iter (PStr s) = Inr (map (\<lambda>c. PStr [c]) s)"
| "py_iter PNone = Inl TypeError"
| "py_iter (PBool b) = Inl TypeError"
| "py_iter (PInt i) = Inl TypeError"

fun py_len :: "pyval \<Rightarrow> error + nat" where
  "py_len (PList xs) = Inr (length xs)"
| "py_len (PDict kvs) = Inr (length kvs)"
| "py_len (PStr s) = Inr (length s)"
| "py_len PNone = Inl TypeError"
| "py_len (PBool b) = Inl TypeError"
| "py_len (PInt i) = Inl TypeError"

text \<open>
  \<open>next(v, default)\<close>: the builtin asks its first argument for \<open>__next__\<close>. No decoded
  JSON value is an iterator (a list is iterable, not an iterator), so the call raises
  \<open>TypeError\<close> whatever the default is.
\<close>

fun py_next :: "pyval \<Rightarrow> pyval \<Rightarrow> error + pyval" where
  "py_next (PList xs) d = Inl TypeError"
| "py_next (PDict kvs) d = Inl TypeError"
| "py_next (PStr s) d = Inl TypeError"
| "py_next PNone d = Inl TypeError"
| "py_next (PBool b) d = Inl TypeError"
| "py_next (PInt i) d = Inl TypeError"

subsection \<open>Strings\<close>

fun startswith :: "'a list \<Rightarrow> 'a list \<Rightarrow> bool" where
  "startswith s [] = True"
| "startswith [] (p # ps) = False"
| "startswith (c # cs) (p # ps) = (c = p \<and> startswith cs ps)"

text \<open>\<open>py_in n s\<close> is \<open>n in s\<close> for two strings.\<close>

fun py_in :: "'a list \<Rightarrow> 'a list \<Rightarrow> bool" where
  "py_in n [] = (n = [])"
| "py_in n (c # cs) = (startswith (c # cs) n \<or> py_in n cs)"

text \<open>\<open>s.split(sep)\<close> for a separator of one character.\<close>

fun py_split :: "'a list \<Rightarrow> 'a \<Rightarrow> 'a list list" where
  "py_split [] sep = [[]]"
| "py_split (c # cs) sep =
     (if c = sep then [] # py_split cs sep
      else (case py_split cs sep of [] \<Rightarrow> [[c]] | w # ws \<Rightarrow> (c # w) # ws))"

text \<open>\<open>s.find(c)\<close>: the least index, or -1.\<close>

fun py_find :: "'a list \<Rightarrow> 'a \<Rightarrow> int" where
  "py_find [] c = - 1"
| "py_find (x # xs) c =
     (if x = c then 0 else (let r = py_find xs c in if r < 0 then - 1 else r + 1))"

text \<open>\<open>s[a:b]\<close>: a negative index counts from the end, and both are clamped.\<close>

definition slice_index :: "nat \<Rightarrow> int \<Rightarrow> nat" where
  "slice_index n i = (if i < 0 then nat (max 0 (int n + i)) else min n (nat i))"

definition py_slice :: "'a list \<Rightarrow> int \<Rightarrow> int \<Rightarrow> 'a list" where
  "py_slice s a b =
     (let lo = slice_index (length s) a; hi = slice_index (length s) b
      in take (hi - lo) (drop lo s))"

text \<open>\<open>s.strip(c)\<close> for one character \<open>c\<close>.\<close>

definition py_strip :: "'a list \<Rightarrow> 'a \<Rightarrow> 'a list" where
  "py_strip s c = rev (dropWhile (\<lambda>x. x = c) (rev (dropWhile (\<lambda>x. x = c) s)))"

text \<open>\<open>s.replace(a, b)\<close> for two characters.\<close>

definition py_replace :: "'a list \<Rightarrow> 'a \<Rightarrow> 'a \<Rightarrow> 'a list" where
  "py_replace s a b = map (\<lambda>x. if x = a then b else x) s"

fun join :: "'a list \<Rightarrow> 'a list list \<Rightarrow> 'a list" where
  "join sep [] = []"
| "join sep [x] = x"
| "join sep (x # y # r) = x @ sep @ join sep (y # r)"

subsection \<open>\<open>str\<close> and \<open>repr\<close>\<close>

fun digits :: "nat \<Rightarrow> pystr" where
  "digits n = (if n < 10 then [48 + n] else digits (n div 10) @ [48 + n mod 10])"

definition str_int :: "int \<Rightarrow> pystr" where
  "str_int i = (if i < 0 then 45 # digits (nat (- i)) else digits (nat i))"

definition hexdigit :: "nat \<Rightarrow> nat" where
  "hexdigit d = (if d < 10 then 48 + d else 87 + d)"

fun hexn :: "nat \<Rightarrow> nat \<Rightarrow> pystr" where
  "hexn 0 c = []"
| "hexn (Suc k) c = hexn k (c div 16) @ [hexdigit (c mod 16)]"

text \<open>
  \<open>repr\<close> of a string: the quote is \<open>'\<close> unless the string holds \<open>'\<close> and no \<open>"\<close>; the
  quote and the backslash are escaped, tab, newline and carriage return have their
  letters, other control characters and unprintable code points a hexadecimal escape.
\<close>

definition repr_char :: "unicode_db \<Rightarrow> nat \<Rightarrow> nat \<Rightarrow> pystr" where
  "repr_char U q c =
     (if c = q \<or> c = 92 then [92, c]
      else if c = 9 then [92, 116]
      else if c = 10 then [92, 110]
      else if c = 13 then [92, 114]
      else if c < 32 \<or> c = 127 then [92, 120] @ hexn 2 c
      else if c < 127 then [c]
      else if isprintable U c then [c]
      else if c < 256 then [92, 120] @ hexn 2 c
      else if c < 65536 then [92, 117] @ hexn 4 c
      else [92, 85] @ hexn 8 c)"

definition repr_str :: "unicode_db \<Rightarrow> pystr \<Rightarrow> pystr" where
  "repr_str U s =
     (let q = (if 39 \<in> set s \<and> 34 \<notin> set s then 34 else 39)
      in q # concat (map (repr_char U q) s) @ [q])"

fun py_repr :: "unicode_db \<Rightarrow> pyval \<Rightarrow> pystr" where
  "py_repr U PNone = ustr ''None''"
| "py_repr U (PBool b) = (if b then ustr ''True'' else ustr ''False'')"
| "py_repr U (PInt i) = str_int i"
| "py_repr U (PStr s) = repr_str U s"
| "py_repr U (PList xs) = 91 # join (ustr '', '') (map (py_repr U) xs) @ [93]"
| "py_repr U (PDict kvs) =
     123 # join (ustr '', '')
             (map (\<lambda>kv. repr_str U (fst kv) @ ustr '': '' @ py_repr U (snd kv)) kvs) @ [125]"

text \<open>\<open>str(v)\<close>, which an f-string and \<open>str.format\<close> apply to a field.\<close>

fun py_str :: "unicode_db \<Rightarrow> pyval \<Rightarrow> pystr" where
  "py_str U (PStr s) = s"
| "py_str U PNone = py_repr U PNone"
| "py_str U (PBool b) = py_repr U (PBool b)"
| "py_str U (PInt i) = py_repr U (PInt i)"
| "py_str U (PList xs) = py_repr U (PList xs)"
| "py_str U (PDict kvs) = py_repr U (PDict kvs)"

text \<open>
  \<open>template.format(**kw)\<close> for the templates of the source, which hold plain named
  fields \<open>{name}\<close> only. The second argument is the field name read so far, once a
  brace is open. A name that is not a keyword raises \<open>KeyError\<close>, a brace without its
  partner \<open>ValueError\<close>.
\<close>

fun format_scan ::
  "unicode_db \<Rightarrow> pystr \<Rightarrow> pystr option \<Rightarrow> (pystr \<times> pyval) list \<Rightarrow> error + pystr" where
  "format_scan U [] None kw = Inr []"
| "format_scan U [] (Some f) kw = Inl ValueError"
| "format_scan U (c # cs) None kw =
     (if c = 123 then format_scan U cs (Some []) kw
      else if c = 125 then Inl ValueError
      else and_then (format_scan U cs None kw) (\<lambda>r. Inr (c # r)))"
| "format_scan U (c # cs) (Some f) kw =
     (if c = 125 then
        (case map_of kw f of
           None \<Rightarrow> Inl KeyError
         | Some v \<Rightarrow> and_then (format_scan U cs None kw) (\<lambda>r. Inr (py_str U v @ r)))
      else format_scan U cs (Some (f @ [c])) kw)"

definition py_format :: "unicode_db \<Rightarrow> pystr \<Rightarrow> (pystr \<times> pyval) list \<Rightarrow> error + pystr" where
  "py_format U t kw = format_scan U t None kw"

section \<open>Configuration and HTTP\<close>

text \<open>\<open>get_config()\<close>: the network timeout and the flag of a run inside a pod.\<close>

record config =
  network_timeout :: nat
  pod :: bool

datatype verb = GET | POST

record request =
  verb :: verb
  url :: pystr
  req_headers :: "(pystr \<times> pystr) list"
  verify :: bool
  allow_redirects :: bool
  stream :: bool
  timeout :: nat

text \<open>
  A response: \<open>resp_text\<close> is \<open>response.text\<close>; \<open>resp_json\<close> is what \<open>response.json()\<close>
  decodes, \<open>None\<close> when the body is not JSON and the call raises.
\<close>

record response =
  status_code :: int
  resp_text :: pystr
  resp_json :: "pyval option"

definition json :: "response \<Rightarrow> error + pyval" where
  "json r = (case resp_json r of None \<Rightarrow> Inl ValueError | Some v \<Rightarrow> Inr v)"

text \<open>
  The probed agent and the transport, as the hunters see them: a request is answered or
  raises. Within one run no URL is requested twice, so a function of the request loses
  nothing.
\<close>

type_synonym network = "request \<Rightarrow> error + response"

record Session =
  headers :: "(pystr \<times> pystr) list"

text \<open>\<open>requests.get(url, timeout=t)\<close> with the library's defaults.\<close>

definition get_request :: "pystr \<Rightarrow> nat \<Rightarrow> request" where
  "get_request u t =
     \<lparr>verb = GET, url = u, req_headers = [], verify = True, allow_redirects = True,
      stream = False, timeout = t\<rparr>"

text \<open>\<open>session.get\<close>: the headers of the call come before the session's.\<close>

definition session_get :: "network \<Rightarrow> Session \<Rightarrow> request \<Rightarrow> error + response" where
  "session_get net s rq = net (rq\<lparr>req_headers := req_headers rq @ headers s\<rparr>)"

section \<open>Findings\<close>

datatype component = Kubelet | KubernetesCluster

datatype category = InformationDisclosure | RemoteCodeExec | AccessRisk

datatype vclass =
  C_ExposedPodsHandler | C_AnonymousAuthEnabled | C_ExposedContainerLogsHandler
  | C_ExposedRunningPodsHandler | C_ExposedExecHandler | C_ExposedRunHandler
  | C_ExposedPortForwardHandler | C_ExposedAttachHandler | C_ExposedHealthzHandler
  | C_PrivilegedContainers | C_ExposedSystemLogs | C_ExposedKubeletCmdline

text \<open>The attribute a finding class sets next to the base class's fields.\<close>

datatype payload =
  NoPayload | Pods pyval | Count nat | Status pyval | Containers "(pyval \<times> pyval) list"
  | Cmdline pystr | Proctitles "pystr list"

text \<open>
  A \<open>Vulnerability\<close>. The base class is not part of the sources; \<open>vid\<close> and \<open>evidence\<close>
  are \<open>None\<close> when the subclass passes none to its constructor.
\<close>

record vulnerability =
  vclass :: vclass
  name :: pystr
  component :: component
  category :: category
  vid :: "pystr option"
  evidence :: "pystr option"
  payload :: payload

definition ExposedPodsHandler :: "pyval \<Rightarrow> error + vulnerability" where
  "ExposedPodsHandler pods =
     and_then (py_len pods) (\<lambda>n. Inr
       \<lparr>vclass = C_ExposedPodsHandler, name = ustr ''Exposed Pods'', component = Kubelet,
        category = InformationDisclosure, vid = None,
        evidence = Some (ustr ''count: '' @ str_int (int n)), payload = Pods pods\<rparr>)"

definition AnonymousAuthEnabled :: vulnerability where
  "AnonymousAuthEnabled =
     \<lparr>vclass = C_AnonymousAuthEnabled, name = ustr ''Anonymous Authentication'',
      component = Kubelet, category = RemoteCodeExec, vid = Some (ustr ''KHV036''),
      evidence = None, payload = NoPayload\<rparr>"

definition ExposedContainerLogsHandler :: vulnerability where
  "ExposedContainerLogsHandler =
     \<lparr>vclass = C_ExposedContainerLogsHandler, name = ustr ''Exposed Container Logs'',
      component = Kubelet, category = InformationDisclosure, vid = Some (ustr ''KHV037''),
      evidence = None, payload = NoPayload\<rparr>"

definition ExposedRunningPodsHandler :: "nat \<Rightarrow> vulnerability" where
  "ExposedRunningPodsHandler n =
     \<lparr>vclass = C_ExposedRunningPodsHandler, name = ustr ''Exposed Running Pods'',
      component = Kubelet, category = InformationDisclosure, vid = Some (ustr ''KHV038''),
      evidence = Some (str_int (int n) @ ustr '' running pods''), payload = Count n\<rparr>"

definition ExposedExecHandler :: vulnerability where
  "ExposedExecHandler =
     \<lparr>vclass = C_ExposedExecHandler, name = ustr ''Exposed Exec On Container'',
      component = Kubelet, category = RemoteCodeExec, vid = Some (ustr ''KHV039''),
      evidence = None, payload = NoPayload\<rparr>"

definition ExposedRunHandler :: vulnerability where
  "ExposedRunHandler =
     \<lparr>vclass = C_ExposedRunHandler, name = ustr ''Exposed Run Inside Container'',
      component = Kubelet, category = RemoteCodeExec, vid = Some (ustr ''KHV040''),
      evidence = None, payload = NoPayload\<rparr>"

definition ExposedPortForwardHandler :: vulnerability where
  "ExposedPortForwardHandler =
     \<lparr>vclass = C_ExposedPortForwardHandler, name = ustr ''Exposed Port Forward'',
      component = Kubelet, category = RemoteCodeExec, vid = Some (ustr ''KHV041''),
      evidence = None, payload = NoPayload\<rparr>"

definition ExposedAttachHandler :: vulnerability where
  "ExposedAttachHandler =
     \<lparr>vclass = C_ExposedAttachHandler, name = ustr ''Exposed Attaching To Container'',
      component = Kubelet, category = RemoteCodeExec, vid = Some (ustr ''KHV042''),
      evidence = None, payload = NoPayload\<rparr>"

definition ExposedHealthzHandler :: "unicode_db \<Rightarrow> pyval \<Rightarrow> vulnerability" where
  "ExposedHealthzHandler U st =
     \<lparr>vclass = C_ExposedHealthzHandler, name = ustr ''Cluster Health Disclosure'',
      component = Kubelet, category = InformationDisclosure, vid = Some (ustr ''KHV043''),
      evidence = Some (ustr ''status: '' @ py_str U st), payload = Status st\<rparr>"

text \<open>\<open>containers[0]\<close> raises \<open>IndexError\<close> on an empty list.\<close>

definition PrivilegedContainers ::
  "unicode_db \<Rightarrow> (pyval \<times> pyval) list \<Rightarrow> error + vulnerability" where
  "PrivilegedContainers U cs =
     (case cs of
        [] \<Rightarrow> Inl IndexError
      | c # _ \<Rightarrow> Inr
          \<lparr>vclass = C_PrivilegedContainers, name = ustr ''Privileged Container'',
           component = KubernetesCluster, category = AccessRisk, vid = Some (ustr ''KHV044''),
           evidence = Some (ustr ''pod: '' @ py_str U (fst c) @ ustr '', container: ''
                            @ py_str U (snd c) @ ustr '', count: '' @ str_int (int (length cs))),
           payload = Containers cs\<rparr>)"

definition ExposedSystemLogs :: vulnerability where
  "ExposedSystemLogs =
     \<lparr>vclass = C_ExposedSystemLogs, name = ustr ''Exposed System Logs'',
      component = Kubelet, category = InformationDisclosure, vid = Some (ustr ''KHV045''),
      evidence = None, payload = NoPayload\<rparr>"

definition ExposedKubeletCmdline :: "pystr \<Rightarrow> vulnerability" where
  "ExposedKubeletCmdline c =
     \<lparr>vclass = C_ExposedKubeletCmdline, name = ustr ''Exposed Kubelet Cmdline'',
      component = Kubelet, category = InformationDisclosure, vid = Some (ustr ''KHV046''),
      evidence = Some (ustr ''cmdline: '' @ c), payload = Cmdline c\<rparr>"

text \<open>
  What a hunter yields: one of the vulnerabilities above, or the \<open>K8sVersionDisclosure\<close> of
  \<open>kube_hunter.core.events\<close> (not part of the sources), kept with the arguments of its
  constructor: version, from_endpoint, extra_info.
\<close>

datatype finding = Vuln vulnerability | K8sVersionDisclosure pystr pystr pystr

text \<open>
  A generator run to its end: the findings it yielded, in order, and the exception that
  ended it, if one did.
\<close>

type_synonym gen = "finding list \<times> error option"

text \<open>
  A block of statements, each yielding findings or raising: the block yields what its
  statements yield, up to the first that raises.
\<close>

fun gen_seq :: "(error + finding list) list \<Rightarrow> gen" where
  "gen_seq [] = ([], None)"
| "gen_seq (Inl e # ss) = ([], Some e)"
| "gen_seq (Inr fs # ss) = (fs @ fst (gen_seq ss), snd (gen_seq ss))"

text \<open>Statements in sequence: the second generator runs when the first ends normally.\<close>

definition gen_append :: "gen \<Rightarrow> gen \<Rightarrow> gen" where
  "gen_append g h = (case snd g of Some e \<Rightarrow> g | None \<Rightarrow> (fst g @ fst h, snd h))"

text \<open>\<open>yield v\<close> for a vulnerability whose constructor may raise.\<close>

definition yield_vuln :: "error + vulnerability \<Rightarrow> error + finding list" where
  "yield_vuln r = and_then r (\<lambda>v. Inr [Vuln v])"

section \<open>The endpoint catalog\<close>

datatype KubeletHandlers =
  PODS | CONTAINERLOGS | RUNNINGPODS | EXEC | RUN | PORTFORWARD | ATTACH | LOGS | PPROF_CMDLINE

fun handler_value :: "KubeletHandlers \<Rightarrow> pystr" where
  "handler_value PODS = ustr ''pods''"
| "handler_value CONTAINERLOGS = ustr ''containerLogs/{pod_namespace}/{pod_id}/{container_name}''"
| "handler_value RUNNINGPODS = ustr ''runningpods''"
| "handler_value EXEC =
     ustr ''exec/{pod_namespace}/{pod_id}/{container_name}?command={cmd}&input=1&output=1&tty=1''"
| "handler_value RUN = ustr ''run/{pod_namespace}/{pod_id}/{container_name}?cmd={cmd}''"
| "handler_value PORTFORWARD = ustr ''portForward/{pod_namespace}/{pod_id}?port={port}''"
| "handler_value ATTACH =
     ustr ''attach/{pod_namespace}/{pod_id}/{container_name}?command={cmd}&input=1&output=1&tty=1''"
| "handler_value LOGS = ustr ''logs/{path}''"
| "handler_value PPROF_CMDLINE = ustr ''debug/pprof/cmdline''"

section \<open>The hunters' events and objects\<close>

record KubeletEvent =
  host :: pystr
  port :: int

record SecureKubeletEvent = KubeletEvent +
  secure :: bool
  auth_token :: pyval
  anonymous_auth :: bool
  ev_session :: "Session option"

text \<open>The attributes both probers keep on \<open>self\<close>.\<close>

record Hunter =
  path :: pystr
  pods_endpoint_data :: pyval

record SecureHunter = Hunter +
  event :: SecureKubeletEvent
  session :: Session
  kubehunter_pod :: pyval

section \<open>\<open>ReadOnlyKubeletPortHunter\<close>\<close>

definition ReadOnlyKubeletPortHunter_init :: "KubeletEvent \<Rightarrow> Hunter" where
  "ReadOnlyKubeletPortHunter_init e =
     \<lparr>path = ustr ''http://'' @ host e @ ustr '':'' @ str_int (port e),
      pods_endpoint_data = PStr []\<rparr>"

text \<open>
  The label entries of one metrics line: \<open>line[line.find("{") + 1 : line.find("}")].split(",")\<close>.
\<close>

definition label_entries :: "pystr \<Rightarrow> pystr list" where
  "label_entries line = py_split (py_slice line (py_find line 123 + 1) (py_find line 125)) 44"

text \<open>
  The inner loop of \<open>get_k8s_version\<close>. \<open>k, v = info.split("=")\<close> raises \<open>ValueError\<close>
  unless the entry splits into exactly two parts.
\<close>

fun scan_infos :: "pystr list \<Rightarrow> error + pystr option" where
  "scan_infos [] = Inr None"
| "scan_infos (info # infos) =
     (case py_split info 61 of
        [k, v] \<Rightarrow> if k = ustr ''gitVersion'' then Inr (Some (py_strip v 34)) else scan_infos infos
      | _ \<Rightarrow> Inl ValueError)"

text \<open>The outer loop; falling off its end returns \<open>None\<close>.\<close>

fun scan_lines :: "pystr list \<Rightarrow> error + pystr option" where
  "scan_lines [] = Inr None"
| "scan_lines (line # lines) =
     (if startswith line (ustr ''kubernetes_build_info'') then
        (case scan_infos (label_entries line) of
           Inl e \<Rightarrow> Inl e
         | Inr (Some v) \<Rightarrow> Inr (Some v)
         | Inr None \<Rightarrow> scan_lines lines)
      else scan_lines lines)"

definition get_k8s_version :: "network \<Rightarrow> config \<Rightarrow> Hunter \<Rightarrow> error + pystr option" where
  "get_k8s_version net cfg self =
     and_then (net (get_request (path self @ ustr ''/metrics'') (network_timeout cfg)))
       (\<lambda>r. scan_lines (py_split (resp_text r) 10))"

text \<open>The loop over the containers of one pod, and the loop over the pods.\<close>

fun scan_containers :: "pyval \<Rightarrow> pyval list \<Rightarrow> error + (pyval \<times> pyval) list" where
  "scan_containers pd [] = Inr []"
| "scan_containers pd (c # cs) =
     and_then (py_get c (ustr ''securityContext'') (PDict [])) (\<lambda>sc.
     and_then (py_get sc (ustr ''privileged'') PNone) (\<lambda>pr.
       if truthy pr then
         and_then (getitem pd (ustr ''metadata'')) (\<lambda>m.
         and_then (getitem m (ustr ''name'')) (\<lambda>pn.
         and_then (getitem c (ustr ''name'')) (\<lambda>cn.
         and_then (scan_containers pd cs) (\<lambda>r. Inr ((pn, cn) # r)))))
       else scan_containers pd cs))"

fun scan_pods :: "pyval list \<Rightarrow> error + (pyval \<times> pyval) list" where
  "scan_pods [] = Inr []"
| "scan_pods (pd # pds) =
     and_then (getitem pd (ustr ''spec'')) (\<lambda>sp.
     and_then (getitem sp (ustr ''containers'')) (\<lambda>cv.
     and_then (py_iter cv) (\<lambda>cs.
     and_then (scan_containers pd cs) (\<lambda>a.
     and_then (scan_pods pds) (\<lambda>b. Inr (a @ b))))))"

text \<open>Returns the list of (pod name, container name) pairs, or \<open>None\<close> when it is empty.\<close>

definition find_privileged_containers :: "Hunter \<Rightarrow> error + (pyval \<times> pyval) list option" where
  "find_privileged_containers self =
     and_then
       (if truthy (pods_endpoint_data self) then
          and_then (getitem (pods_endpoint_data self) (ustr ''items'')) (\<lambda>items.
          and_then (py_iter items) scan_pods)
        else Inr [])
       (\<lambda>privileged_containers.
          Inr (if length privileged_containers > 0 then Some privileged_containers else None))"

definition ReadOnly_get_pods_endpoint :: "network \<Rightarrow> config \<Rightarrow> Hunter \<Rightarrow> error + pyval" where
  "ReadOnly_get_pods_endpoint net cfg self =
     and_then (net (get_request (path self @ ustr ''/pods'') (network_timeout cfg)))
       (\<lambda>r. if py_in (ustr ''items'') (resp_text r) then json r else Inr PNone)"

text \<open>Returns the body on status 200 and \<open>False\<close> otherwise.\<close>

definition ReadOnly_check_healthz_endpoint :: "network \<Rightarrow> config \<Rightarrow> Hunter \<Rightarrow> error + pyval" where
  "ReadOnly_check_healthz_endpoint net cfg self =
     and_then
       (net ((get_request (path self @ ustr ''/healthz'') (network_timeout cfg))\<lparr>verify := False\<rparr>))
       (\<lambda>r. Inr (if status_code r = 200 then PStr (resp_text r) else PBool False))"

text \<open>The four \<open>if ...: yield ...\<close> statements that end \<open>execute\<close>.\<close>

definition ReadOnly_yields ::
  "unicode_db \<Rightarrow> pystr option \<Rightarrow> (pyval \<times> pyval) list option \<Rightarrow> pyval \<Rightarrow> pyval \<Rightarrow> gen" where
  "ReadOnly_yields U k8s_version privileged_containers healthz pods_data =
     gen_seq
       [case k8s_version of
          None \<Rightarrow> Inr []
        | Some v \<Rightarrow>
            if v \<noteq> [] then Inr [K8sVersionDisclosure v (ustr ''/metrics'') (ustr ''on Kubelet'')]
            else Inr [],
        case privileged_containers of
          None \<Rightarrow> Inr []
        | Some cs \<Rightarrow> if cs \<noteq> [] then yield_vuln (PrivilegedContainers U cs) else Inr [],
        if truthy healthz then Inr [Vuln (ExposedHealthzHandler U healthz)] else Inr [],
        if truthy pods_data then
          yield_vuln (and_then (getitem pods_data (ustr ''items'')) ExposedPodsHandler)
        else Inr []]"

text \<open>
  \<open>execute\<close>: the four calls come before the first \<open>yield\<close>, outside any \<open>try\<close>; an
  exception in one of them ends the generator before it has yielded.
\<close>

definition ReadOnly_execute :: "unicode_db \<Rightarrow> network \<Rightarrow> config \<Rightarrow> Hunter \<Rightarrow> gen" where
  "ReadOnly_execute U net cfg self =
     (case ReadOnly_get_pods_endpoint net cfg self of
        Inl e \<Rightarrow> ([], Some e)
      | Inr pods_data \<Rightarrow>
     (case get_k8s_version net cfg self of
        Inl e \<Rightarrow> ([], Some e)
      | Inr k8s_version \<Rightarrow>
     (case find_privileged_containers (self\<lparr>pods_endpoint_data := pods_data\<rparr>) of
        Inl e \<Rightarrow> ([], Some e)
      | Inr privileged_containers \<Rightarrow>
     (case ReadOnly_check_healthz_endpoint net cfg self of
        Inl e \<Rightarrow> ([], Some e)
      | Inr healthz \<Rightarrow>
          ReadOnly_yields U k8s_version privileged_containers healthz pods_data))))"

section \<open>\<open>SecureKubeletPortHunter\<close>\<close>

subsection \<open>\<open>DebugHandlers\<close>\<close>

record DebugHandlers =
  dh_path :: pystr
  dh_session :: Session
  dh_pod :: pyval

text \<open>A session object is always true, so the one passed in is kept.\<close>

definition DebugHandlers_init :: "pystr \<Rightarrow> pyval \<Rightarrow> Session \<Rightarrow> DebugHandlers" where
  "DebugHandlers_init p pd s = \<lparr>dh_path = p, dh_session = s, dh_pod = pd\<rparr>"

text \<open>
  The URL of each probe, named as the local variable of its method. The keyword
  arguments are evaluated left to right, then the template is filled in, then the result
  is appended to the path.
\<close>

definition logs_url :: "unicode_db \<Rightarrow> DebugHandlers \<Rightarrow> error + pystr" where
  "logs_url U dh =
     and_then (getitem (dh_pod dh) (ustr ''namespace'')) (\<lambda>ns.
     and_then (getitem (dh_pod dh) (ustr ''name'')) (\<lambda>n.
     and_then (getitem (dh_pod dh) (ustr ''container'')) (\<lambda>c.
     and_then (py_format U (handler_value CONTAINERLOGS)
                 [(ustr ''pod_namespace'', ns), (ustr ''pod_id'', n), (ustr ''container_name'', c)])
       (\<lambda>s. Inr (dh_path dh @ s)))))"

definition exec_url :: "unicode_db \<Rightarrow> DebugHandlers \<Rightarrow> error + pystr" where
  "exec_url U dh =
     and_then (getitem (dh_pod dh) (ustr ''namespace'')) (\<lambda>ns.
     and_then (getitem (dh_pod dh) (ustr ''name'')) (\<lambda>n.
     and_then (getitem (dh_pod dh) (ustr ''container'')) (\<lambda>c.
     and_then (py_format U (handler_value EXEC)
                 [(ustr ''pod_namespace'', ns), (ustr ''pod_id'', n), (ustr ''container_name'', c),
                  (ustr ''cmd'', PStr [])])
       (\<lambda>s. Inr (dh_path dh @ s)))))"

definition pf_url :: "unicode_db \<Rightarrow> DebugHandlers \<Rightarrow> error + pystr" where
  "pf_url U dh =
     and_then (getitem (dh_pod dh) (ustr ''namespace'')) (\<lambda>ns.
     and_then (getitem (dh_pod dh) (ustr ''name'')) (\<lambda>n.
     and_then (py_format U (handler_value PORTFORWARD)
                 [(ustr ''pod_namespace'', ns), (ustr ''pod_id'', n), (ustr ''port'', PInt 80)])
       (\<lambda>s. Inr (dh_path dh @ s))))"

definition run_url :: "unicode_db \<Rightarrow> DebugHandlers \<Rightarrow> error + pystr" where
  "run_url U dh =
     and_then (py_format U (handler_value RUN)
                 [(ustr ''pod_namespace'', PStr (ustr ''test'')), (ustr ''pod_id'', PStr (ustr ''test'')),
                  (ustr ''container_name'', PStr (ustr ''test'')), (ustr ''cmd'', PStr [])])
       (\<lambda>s. Inr (dh_path dh @ s))"

definition pods_url :: "DebugHandlers \<Rightarrow> pystr" where
  "pods_url dh = dh_path dh @ handler_value RUNNINGPODS"

definition attach_url :: "unicode_db \<Rightarrow> DebugHandlers \<Rightarrow> error + pystr" where
  "attach_url U dh =
     and_then (getitem (dh_pod dh) (ustr ''namespace'')) (\<lambda>ns.
     and_then (getitem (dh_pod dh) (ustr ''name'')) (\<lambda>n.
     and_then (getitem (dh_pod dh) (ustr ''container'')) (\<lambda>c.
     and_then (py_format U (handler_value ATTACH)
                 [(ustr ''pod_namespace'', ns), (ustr ''pod_id'', n), (ustr ''container_name'', c),
                  (ustr ''cmd'', PStr [])])
       (\<lambda>s. Inr (dh_path dh @ s)))))"

definition logs_endpoint_url :: "unicode_db \<Rightarrow> DebugHandlers \<Rightarrow> error + pystr" where
  "logs_endpoint_url U dh =
     and_then (py_format U (handler_value LOGS) [(ustr ''path'', PStr [])])
       (\<lambda>s. Inr (dh_path dh @ s))"

definition pprof_cmdline_url :: "DebugHandlers \<Rightarrow> pystr" where
  "pprof_cmdline_url dh = dh_path dh @ handler_value PPROF_CMDLINE"

text \<open>The probes. Each sends one request through the session.\<close>

definition test_container_logs ::
  "unicode_db \<Rightarrow> network \<Rightarrow> config \<Rightarrow> DebugHandlers \<Rightarrow> error + bool" where
  "test_container_logs U net cfg dh =
     and_then (logs_url U dh) (\<lambda>u.
     and_then (session_get net (dh_session dh)
                 ((get_request u (network_timeout cfg))\<lparr>verify := False\<rparr>))
       (\<lambda>r. Inr (status_code r = 200)))"

definition test_exec_container ::
  "unicode_db \<Rightarrow> network \<Rightarrow> config \<Rightarrow> DebugHandlers \<Rightarrow> error + bool" where
  "test_exec_container U net cfg dh =
     and_then (exec_url U dh) (\<lambda>u.
     and_then (session_get net (dh_session dh)
                 ((get_request u (network_timeout cfg))
                    \<lparr>req_headers := [(ustr ''X-Stream-Protocol-Version'', ustr ''v2.channel.k8s.io'')],
                     verify := False, allow_redirects := False\<rparr>))
       (\<lambda>r. Inr (py_in (ustr ''/cri/exec/'') (resp_text r))))"

text \<open>
  The comparison of the status with 200 is computed and dropped; the method has no
  \<open>return\<close>, so it returns \<open>None\<close>.
\<close>

definition test_port_forward ::
  "unicode_db \<Rightarrow> network \<Rightarrow> config \<Rightarrow> DebugHandlers \<Rightarrow> error + pyval" where
  "test_port_forward U net cfg dh =
     and_then (pf_url U dh) (\<lambda>u.
     and_then (session_get net (dh_session dh)
                 ((get_request u (network_timeout cfg))
                    \<lparr>req_headers :=
                       [(ustr ''Upgrade'', ustr ''websocket''), (ustr ''Connection'', ustr ''Upgrade''),
                        (ustr ''Sec-Websocket-Key'', ustr ''s''),
                        (ustr ''Sec-Websocket-Version'', ustr ''13''),
                        (ustr ''Sec-Websocket-Protocol'', ustr ''SPDY'')],
                     verify := False, stream := True\<rparr>))
       (\<lambda>r. Inr PNone))"

definition test_run_container ::
  "unicode_db \<Rightarrow> network \<Rightarrow> config \<Rightarrow> DebugHandlers \<Rightarrow> error + bool" where
  "test_run_container U net cfg dh =
     and_then (run_url U dh) (\<lambda>u.
     and_then (session_get net (dh_session dh)
                 ((get_request u (network_timeout cfg))\<lparr>verify := False\<rparr>))
       (\<lambda>r. Inr (status_code r = 405)))"

definition test_running_pods :: "network \<Rightarrow> config \<Rightarrow> DebugHandlers \<Rightarrow> error + pyval" where
  "test_running_pods net cfg dh =
     and_then (session_get net (dh_session dh)
                 ((get_request (pods_url dh) (network_timeout cfg))\<lparr>verify := False\<rparr>))
       (\<lambda>r. if status_code r = 200 then json r else Inr (PBool False))"

definition test_attach_container ::
  "unicode_db \<Rightarrow> network \<Rightarrow> config \<Rightarrow> DebugHandlers \<Rightarrow> error + bool" where
  "test_attach_container U net cfg dh =
     and_then (attach_url U dh) (\<lambda>u.
     and_then (session_get net (dh_session dh)
                 ((get_request u (network_timeout cfg))
                    \<lparr>verify := False, allow_redirects := False\<rparr>))
       (\<lambda>r. Inr (py_in (ustr ''/cri/attach/'') (resp_text r))))"

definition test_logs_endpoint ::
  "unicode_db \<Rightarrow> network \<Rightarrow> config \<Rightarrow> DebugHandlers \<Rightarrow> error + bool" where
  "test_logs_endpoint U net cfg dh =
     and_then (logs_endpoint_url U dh) (\<lambda>u.
     and_then (session_get net (dh_session dh) (get_request u (network_timeout cfg)))
       (\<lambda>r. Inr (py_in (ustr ''<pre>'') (resp_text r))))"

text \<open>Returns the body on status 200 and \<open>None\<close> otherwise.\<close>

definition test_pprof_cmdline :: "network \<Rightarrow> config \<Rightarrow> DebugHandlers \<Rightarrow> error + pystr option" where
  "test_pprof_cmdline net cfg dh =
     and_then (session_get net (dh_session dh)
                 ((get_request (pprof_cmdline_url dh) (network_timeout cfg))\<lparr>verify := False\<rparr>))
       (\<lambda>r. Inr (if status_code r = 200 then Some (resp_text r) else None))"

subsection \<open>The prober\<close>

text \<open>
  The path is a plain string literal in the source, not an f-string: the braces and the
  text between them are part of it.
\<close>

definition SecureKubeletPortHunter_init :: "unicode_db \<Rightarrow> SecureKubeletEvent \<Rightarrow> SecureHunter" where
  "SecureKubeletPortHunter_init U e =
     (let s = \<lparr>headers =
                 (if secure e then
                    [(ustr ''Authorization'', ustr ''Bearer '' @ py_str U (auth_token e))]
                  else [])\<rparr>
      in \<lparr>path = ustr ''https://{self.event.host}:10250'',
          pods_endpoint_data = PStr [],
          event = e\<lparr>ev_session := Some s\<rparr>,
          session = s,
          kubehunter_pod =
            PDict [(ustr ''name'', PStr (ustr ''kube-hunter'')),
                   (ustr ''namespace'', PStr (ustr ''default'')),
                   (ustr ''container'', PStr (ustr ''kube-hunter''))]\<rparr>)"

text \<open>The two URLs the prober itself asks for: \<open>f"{self.path}/pods"\<close> and \<open>f"{self.path}/healthz"\<close>.\<close>

definition Secure_pods_url :: "SecureHunter \<Rightarrow> pystr" where
  "Secure_pods_url self = path self @ ustr ''/pods''"

definition Secure_healthz_url :: "SecureHunter \<Rightarrow> pystr" where
  "Secure_healthz_url self = path self @ ustr ''/healthz''"

definition Secure_get_pods_endpoint :: "network \<Rightarrow> config \<Rightarrow> SecureHunter \<Rightarrow> error + pyval" where
  "Secure_get_pods_endpoint net cfg self =
     and_then (session_get net (session self)
                 ((get_request (Secure_pods_url self) (network_timeout cfg))\<lparr>verify := False\<rparr>))
       (\<lambda>r. if py_in (ustr ''items'') (resp_text r) then json r else Inr PNone)"

text \<open>The health request goes through \<open>requests.get\<close>, not through the session.\<close>

definition Secure_check_healthz_endpoint :: "network \<Rightarrow> config \<Rightarrow> SecureHunter \<Rightarrow> error + pyval" where
  "Secure_check_healthz_endpoint net cfg self =
     and_then
       (net ((get_request (Secure_healthz_url self) (network_timeout cfg))\<lparr>verify := False\<rparr>))
       (\<lambda>r. Inr (if status_code r = 200 then PStr (resp_text r) else PBool False))"

text \<open>
  The two filters of \<open>get_random_pod\<close>; \<open>and\<close> looks at the phase only when the namespace
  matched.
\<close>

definition is_default_pod :: "pyval \<Rightarrow> error + bool" where
  "is_default_pod pd =
     and_then (getitem pd (ustr ''metadata'')) (\<lambda>m.
     and_then (getitem m (ustr ''namespace'')) (\<lambda>ns.
       if ns = PStr (ustr ''default'') then
         and_then (getitem pd (ustr ''status'')) (\<lambda>st.
         and_then (getitem st (ustr ''phase'')) (\<lambda>ph. Inr (ph = PStr (ustr ''Running''))))
       else Inr False))"

definition is_kubesystem_pod :: "pyval \<Rightarrow> error + bool" where
  "is_kubesystem_pod pd =
     and_then (getitem pd (ustr ''metadata'')) (\<lambda>m.
     and_then (getitem m (ustr ''namespace'')) (\<lambda>ns.
       if ns = PStr (ustr ''kube-system'') then
         and_then (getitem pd (ustr ''status'')) (\<lambda>st.
         and_then (getitem st (ustr ''phase'')) (\<lambda>ph. Inr (ph = PStr (ustr ''Running''))))
       else Inr False))"

text \<open>\<open>next(filter(p, xs), None)\<close>: the first element that passes, or \<open>None\<close>.\<close>

fun next_filter :: "(pyval \<Rightarrow> error + bool) \<Rightarrow> pyval list \<Rightarrow> error + pyval" where
  "next_filter p [] = Inr PNone"
| "next_filter p (x # xs) =
     (case p x of Inl e \<Rightarrow> Inl e | Inr b \<Rightarrow> if b then Inr x else next_filter p xs)"

text \<open>Returns the target as a dictionary, or \<open>None\<close>.\<close>

definition get_random_pod :: "SecureHunter \<Rightarrow> error + pyval" where
  "get_random_pod self =
     (if truthy (pods_endpoint_data self) then
        and_then (getitem (pods_endpoint_data self) (ustr ''items'')) (\<lambda>pods_data.
        and_then (py_iter pods_data) (\<lambda>pds.
        and_then (next_filter is_default_pod pds) (\<lambda>first.
        and_then (if \<not> truthy first then next_filter is_kubesystem_pod pds else Inr first)
          (\<lambda>pod_data.
             if truthy pod_data then
               and_then (getitem pod_data (ustr ''spec'')) (\<lambda>sp.
               and_then (getitem sp (ustr ''containers'')) (\<lambda>cs.
               and_then (py_next cs PNone) (\<lambda>container_data.
                 if truthy container_data then
                   and_then (getitem pod_data (ustr ''metadata'')) (\<lambda>m.
                   and_then (getitem m (ustr ''name'')) (\<lambda>n.
                   and_then (getitem container_data (ustr ''name'')) (\<lambda>cn.
                   and_then (getitem pod_data (ustr ''metadata'')) (\<lambda>m2.
                   and_then (getitem m2 (ustr ''namespace'')) (\<lambda>ns.
                     Inr (PDict [(ustr ''name'', n), (ustr ''container'', cn),
                                 (ustr ''namespace'', ns)]))))))
                 else Inr PNone)))
             else Inr PNone))))
      else Inr PNone)"

text \<open>The statements of the \<open>try\<close> block of \<open>test_handlers\<close>, in order.\<close>

definition battery ::
  "unicode_db \<Rightarrow> network \<Rightarrow> config \<Rightarrow> DebugHandlers \<Rightarrow> (error + finding list) list" where
  "battery U net cfg dh =
     [and_then (test_running_pods net cfg dh) (\<lambda>running_pods.
        if truthy running_pods then
          and_then (getitem running_pods (ustr ''items'')) (\<lambda>items.
          and_then (py_len items) (\<lambda>n. Inr [Vuln (ExposedRunningPodsHandler n)]))
        else Inr []),
      and_then (test_pprof_cmdline net cfg dh) (\<lambda>cmdline.
        case cmdline of
          None \<Rightarrow> Inr []
        | Some c \<Rightarrow> if c \<noteq> [] then Inr [Vuln (ExposedKubeletCmdline c)] else Inr []),
      and_then (test_container_logs U net cfg dh) (\<lambda>b.
        if b then Inr [Vuln ExposedContainerLogsHandler] else Inr []),
      and_then (test_exec_container U net cfg dh) (\<lambda>b.
        if b then Inr [Vuln ExposedExecHandler] else Inr []),
      and_then (test_run_container U net cfg dh) (\<lambda>b.
        if b then Inr [Vuln ExposedRunHandler] else Inr []),
      and_then (test_port_forward U net cfg dh) (\<lambda>r.
        if truthy r then Inr [Vuln ExposedPortForwardHandler] else Inr []),
      and_then (test_attach_container U net cfg dh) (\<lambda>b.
        if b then Inr [Vuln ExposedAttachHandler] else Inr []),
      and_then (test_logs_endpoint U net cfg dh) (\<lambda>b.
        if b then Inr [Vuln ExposedSystemLogs] else Inr [])]"

text \<open>\<open>try: ... except Exception: logger.debug(...)\<close>: what was yielded stays, the exception ends there.\<close>

definition try_except :: "gen \<Rightarrow> gen" where
  "try_except g = (fst g, None)"

text \<open>The choice of the pod stands before the \<open>try\<close>.\<close>

definition test_handlers :: "unicode_db \<Rightarrow> network \<Rightarrow> config \<Rightarrow> SecureHunter \<Rightarrow> gen" where
  "test_handlers U net cfg self =
     (case (if pod cfg then Inr (kubehunter_pod self) else get_random_pod self) of
        Inl e \<Rightarrow> ([], Some e)
      | Inr pd \<Rightarrow>
          if truthy pd then
            try_except (gen_seq (battery U net cfg (DebugHandlers_init (path self) pd (session self))))
          else ([], None))"

definition Secure_execute :: "unicode_db \<Rightarrow> network \<Rightarrow> config \<Rightarrow> SecureHunter \<Rightarrow> gen" where
  "Secure_execute U net cfg self =
     gen_append
       (if anonymous_auth (event self) then [Vuln AnonymousAuthEnabled] else [], None)
       (case Secure_get_pods_endpoint net cfg self of
          Inl e \<Rightarrow> ([], Some e)
        | Inr pods_data \<Rightarrow>
       (case Secure_check_healthz_endpoint net cfg self of
          Inl e \<Rightarrow> ([], Some e)
        | Inr healthz \<Rightarrow>
            gen_append
              (gen_seq
                 [if truthy pods_data then
                    yield_vuln (and_then (getitem pods_data (ustr ''items'')) ExposedPodsHandler)
                  else Inr [],
                  if truthy healthz then Inr [Vuln (ExposedHealthzHandler U healthz)] else Inr []])
              (test_handlers U net cfg (self\<lparr>pods_endpoint_data := pods_data\<rparr>))))"

section \<open>\<open>ProveSystemLogs\<close>\<close>

text \<open>\<open>\w\<close> of a Unicode pattern: a letter or digit of any script, or the underscore.\<close>

definition is_word :: "unicode_db \<Rightarrow> nat \<Rightarrow> bool" where
  "is_word U c =
     ((48 \<le> c \<and> c \<le> 57) \<or> (65 \<le> c \<and> c \<le> 90) \<or> (97 \<le> c \<and> c \<le> 122) \<or> c = 95
      \<or> (128 \<le> c \<and> isalnum U c))"

text \<open>
  \<open>re.findall(r"proctitle=(\w+)", s)\<close>: the groups of the matches, left to right without
  overlap. The group is the longest run of word characters after the prefix; where the
  prefix is followed by none, the search goes on one character further.
\<close>

function findall_proctitle :: "unicode_db \<Rightarrow> pystr \<Rightarrow> pystr list" where
  "findall_proctitle U [] = []"
| "findall_proctitle U (c # cs) =
     (if startswith (c # cs) (ustr ''proctitle='')
         \<and> takeWhile (is_word U) (drop 10 (c # cs)) \<noteq> []
      then takeWhile (is_word U) (drop 10 (c # cs))
             # findall_proctitle U (dropWhile (is_word U) (drop 10 (c # cs)))
      else findall_proctitle U cs)"
  by pat_completeness auto
termination
  by (relation "measure (\<lambda>p. length (snd p))")
     (auto intro!: le_imp_less_Suc order_trans [OF length_dropWhile_le])

definition is_space :: "nat \<Rightarrow> bool" where
  "is_space c = (c = 32 \<or> (9 \<le> c \<and> c \<le> 13))"

definition hexval :: "nat \<Rightarrow> nat option" where
  "hexval c =
     (if 48 \<le> c \<and> c \<le> 57 then Some (c - 48)
      else if 97 \<le> c \<and> c \<le> 102 then Some (c - 87)
      else if 65 \<le> c \<and> c \<le> 70 then Some (c - 55)
      else None)"

text \<open>
  \<open>bytes.fromhex\<close>: pairs of hexadecimal digits, with ASCII whitespace allowed between
  pairs; anything else raises \<open>ValueError\<close>.
\<close>

fun fromhex :: "pystr \<Rightarrow> error + nat list" where
  "fromhex [] = Inr []"
| "fromhex [a] = (if is_space a then Inr [] else Inl ValueError)"
| "fromhex (a # b # r) =
     (if is_space a then fromhex (b # r)
      else (case hexval a of
              None \<Rightarrow> Inl ValueError
            | Some x \<Rightarrow>
                (case hexval b of
                   None \<Rightarrow> Inl ValueError
                 | Some y \<Rightarrow> and_then (fromhex r) (\<lambda>bs. Inr ((16 * x + y) # bs)))))"

text \<open>
  \<open>bytes.decode("utf-8")\<close>, strict: sequences of one to four bytes, with overlong forms,
  surrogates and code points beyond U+10FFFF refused.
\<close>

definition cont :: "nat \<Rightarrow> bool" where
  "cont b = (128 \<le> b \<and> b < 192)"

fun utf8_decode :: "nat list \<Rightarrow> error + pystr" where
  "utf8_decode [] = Inr []"
| "utf8_decode (b0 # bs) =
     (if b0 < 128 then and_then (utf8_decode bs) (\<lambda>s. Inr (b0 # s))
      else if 194 \<le> b0 \<and> b0 < 224 then
        (case bs of
           b1 # r \<Rightarrow>
             if cont b1 then
               and_then (utf8_decode r) (\<lambda>s. Inr (((b0 - 192) * 64 + (b1 - 128)) # s))
             else Inl UnicodeDecodeError
         | _ \<Rightarrow> Inl UnicodeDecodeError)
      else if 224 \<le> b0 \<and> b0 < 240 then
        (case bs of
           b1 # b2 # r \<Rightarrow>
             if cont b1 \<and> cont b2 \<and> (if b0 = 224 then 160 \<le> b1 else True)
                \<and> (if b0 = 237 then b1 < 160 else True) then
               and_then (utf8_decode r)
                 (\<lambda>s. Inr (((b0 - 224) * 4096 + (b1 - 128) * 64 + (b2 - 128)) # s))
             else Inl UnicodeDecodeError
         | _ \<Rightarrow> Inl UnicodeDecodeError)
      else if 240 \<le> b0 \<and> b0 < 245 then
        (case bs of
           b1 # b2 # b3 # r \<Rightarrow>
             if cont b1 \<and> cont b2 \<and> cont b3 \<and> (if b0 = 240 then 144 \<le> b1 else True)
                \<and> (if b0 = 244 then b1 < 144 else True) then
               and_then (utf8_decode r)
                 (\<lambda>s. Inr (((b0 - 240) * 262144 + (b1 - 128) * 4096 + (b2 - 128) * 64
                            + (b3 - 128)) # s))
             else Inl UnicodeDecodeError
         | _ \<Rightarrow> Inl UnicodeDecodeError)
      else Inl UnicodeDecodeError)"

text \<open>The loop over the matches: the first field that fails to decode ends it.\<close>

fun decode_proctitles :: "pystr list \<Rightarrow> error + pystr list" where
  "decode_proctitles [] = Inr []"
| "decode_proctitles (p # ps) =
     and_then (fromhex p) (\<lambda>bs.
     and_then (utf8_decode bs) (\<lambda>t.
     and_then (decode_proctitles ps) (\<lambda>r. Inr (py_replace t 0 32 # r))))"

definition ProveSystemLogs_base_url :: "SecureKubeletEvent \<Rightarrow> pystr" where
  "ProveSystemLogs_base_url e = ustr ''https://'' @ host e @ ustr '':'' @ str_int (port e)"

text \<open>
  \<open>execute\<close> of the proof hunter. Its event is the \<open>ExposedSystemLogs\<close> finding \<open>v\<close>, which
  reaches host, port and session of the secure-port event \<open>e\<close> it was found under. The
  result is the finding with \<open>proctitles\<close> and \<open>evidence\<close> set.
\<close>

definition ProveSystemLogs_execute ::
  "unicode_db \<Rightarrow> network \<Rightarrow> config \<Rightarrow> SecureKubeletEvent \<Rightarrow> vulnerability \<Rightarrow> error + vulnerability" where
  "ProveSystemLogs_execute U net cfg e v =
     and_then (case ev_session e of None \<Rightarrow> Inl AttributeError | Some s \<Rightarrow> Inr s) (\<lambda>s.
     and_then (py_format U (handler_value LOGS) [(ustr ''path'', PStr (ustr ''audit/audit.log''))])
       (\<lambda>p.
     and_then (session_get net s
                 ((get_request (ProveSystemLogs_base_url e @ ustr ''/'' @ p) (network_timeout cfg))
                    \<lparr>verify := False\<rparr>))
       (\<lambda>r.
     and_then (decode_proctitles (findall_proctitle U (resp_text r))) (\<lambda>proctitles.
       Inr (v\<lparr>payload := Proctitles proctitles,
              evidence := Some (ustr ''audit log: '' @ py_repr U (PList (map PStr proctitles)))\<rparr>)))))"

section \<open>Reading a run\<close>

text \<open>The class of a finding; the version disclosure is not one of this module's classes.\<close>

fun finding_class :: "finding \<Rightarrow> vclass option" where
  "finding_class (Vuln v) = Some (vclass v)"
| "finding_class (K8sVersionDisclosure ver ep info) = None"

text \<open>What a statement of a block yielded: nothing when it raised.\<close>

fun yielded :: "error + finding list \<Rightarrow> finding list" where
  "yielded (Inl e) = []"
| "yielded (Inr fs) = fs"

text \<open>
  A finding carries something of its own when it has evidence or a payload; the version
  disclosure when its version is not empty.
\<close>

fun populated :: "finding \<Rightarrow> bool" where
  "populated (Vuln v) = (\<not> (evidence v = None \<and> payload v = NoPayload))"
| "populated (K8sVersionDisclosure ver ep info) = (ver \<noteq> [])"

text \<open>The classes whose constructor passes no evidence and sets no attribute.\<close>

definition bare_classes :: "vclass set" where
  "bare_classes = {C_AnonymousAuthEnabled, C_ExposedContainerLogsHandler, C_ExposedExecHandler,
      C_ExposedRunHandler, C_ExposedPortForwardHandler, C_ExposedAttachHandler, C_ExposedSystemLogs}"

section \<open>Sample inputs\<close>

text \<open>A character database that knows no letter and no printable character beyond ASCII.\<close>

definition ascii_db :: unicode_db where
  "ascii_db = \<lparr>isalnum = (\<lambda>c. False), isprintable = (\<lambda>c. False)\<rparr>"

text \<open>A network given by a table of URLs; any other URL refuses the connection.\<close>

definition table_net :: "(pystr \<times> (error + response)) list \<Rightarrow> network" where
  "table_net tbl rq = (case map_of tbl (url rq) of None \<Rightarrow> Inl RequestException | Some r \<Rightarrow> r)"

definition reply :: "int \<Rightarrow> string \<Rightarrow> pyval option \<Rightarrow> error + response" where
  "reply st txt js = Inr \<lparr>status_code = st, resp_text = ustr txt, resp_json = js\<rparr>"

definition selftest_config :: config where
  "selftest_config = \<lparr>network_timeout = 5, pod = True\<rparr>"

definition scan_config :: config where
  "scan_config = \<lparr>network_timeout = 5, pod = False\<rparr>"

definition sample_event :: SecureKubeletEvent where
  "sample_event =
     \<lparr>host = ustr ''10.0.0.7'', port = 10250, secure = True, auth_token = PStr (ustr ''t0k3n''),
      anonymous_auth = True, ev_session = None\<rparr>"

definition other_event :: SecureKubeletEvent where
  "other_event =
     \<lparr>host = ustr ''node-2.example'', port = 10443, secure = False, auth_token = PNone,
      anonymous_auth = False, ev_session = None\<rparr>"

definition sample_pod :: "string \<Rightarrow> string \<Rightarrow> string \<Rightarrow> string \<Rightarrow> pyval option \<Rightarrow> pyval" where
  "sample_pod n ns ph c sc =
     PDict [(ustr ''metadata'', PDict [(ustr ''name'', PStr (ustr n)), (ustr ''namespace'', PStr (ustr ns))]),
            (ustr ''status'', PDict [(ustr ''phase'', PStr (ustr ph))]),
            (ustr ''spec'', PDict [(ustr ''containers'',
               PList [PDict ((ustr ''name'', PStr (ustr c))
                             # (case sc of None \<Rightarrow> [] | Some x \<Rightarrow> [(ustr ''securityContext'', x)]))])])]"

text \<open>One Running pod in kube-system and one Pending pod in default.\<close>

definition sample_listing :: pyval where
  "sample_listing =
     PDict [(ustr ''items'',
        PList [sample_pod ''kube-proxy'' ''kube-system'' ''Running'' ''proxy'' None,
               sample_pod ''web'' ''default'' ''Pending'' ''nginx'' None])]"

text \<open>
  A secure port on which every debug handler answers as an exposed one does, and the same
  port with the exec endpoint unreachable.
\<close>

definition secure_replies :: "(pystr \<times> (error + response)) list" where
  "secure_replies =
     [(ustr ''https://{self.event.host}:10250/pods'',
         reply 200 ''{\"items\": []}'' (Some (PDict [(ustr ''items'', PList [])]))),
      (ustr ''https://{self.event.host}:10250/healthz'', reply 200 ''ok'' None),
      (ustr ''https://{self.event.host}:10250runningpods'',
         reply 200 ''{\"items\": [{}]}'' (Some (PDict [(ustr ''items'', PList [PDict []])]))),
      (ustr ''https://{self.event.host}:10250debug/pprof/cmdline'', reply 200 ''kubelet'' None),
      (ustr ''https://{self.event.host}:10250containerLogs/default/kube-hunter/kube-hunter'',
         reply 200 ''log line'' None),
      (ustr ''https://{self.event.host}:10250run/test/test/test?cmd='', reply 405 [] None),
      (ustr ''https://{self.event.host}:10250portForward/default/kube-hunter?port=80'',
         reply 200 ''ok'' None),
      (ustr ''https://{self.event.host}:10250attach/default/kube-hunter/kube-hunter?command=&input=1&output=1&tty=1'',
         reply 302 ''<a href=\"/cri/attach/x\">Found</a>'' None),
      (ustr ''https://{self.event.host}:10250logs/'', reply 200 ''<pre>audit/</pre>'' None)]"

definition net_all_exposed :: network where
  "net_all_exposed =
     table_net
       ((ustr ''https://{self.event.host}:10250exec/default/kube-hunter/kube-hunter?command=&input=1&output=1&tty=1'',
           reply 302 ''<a href=\"/cri/exec/x\">Found</a>'' None)
        # secure_replies)"

definition net_exec_fails :: network where
  "net_exec_fails = table_net secure_replies"

definition sample_hunter :: SecureHunter where
  "sample_hunter = SecureKubeletPortHunter_init ascii_db sample_event"

definition sample_handlers :: DebugHandlers where
  "sample_handlers =
     DebugHandlers_init (path sample_hunter) (kubehunter_pod sample_hunter) (session sample_hunter)"

text \<open>A read-only port, and a network that answers its three URLs as given.\<close>

definition readonly_event :: KubeletEvent where
  "readonly_event = \<lparr>host = ustr ''10.0.0.7'', port = 10255\<rparr>"

definition readonly_hunter :: Hunter where
  "readonly_hunter = ReadOnlyKubeletPortHunter_init readonly_event"

definition ro_net :: "(error + response) \<Rightarrow> (error + response) \<Rightarrow> (error + response) \<Rightarrow> network" where
  "ro_net pods_reply metrics_reply healthz_reply =
     table_net [(ustr ''http://10.0.0.7:10255/pods'', pods_reply),
                (ustr ''http://10.0.0.7:10255/metrics'', metrics_reply),
                (ustr ''http://10.0.0.7:10255/healthz'', healthz_reply)]"

definition pods_reply :: "error + response" where
  "pods_reply = reply 200 ''{\"items\": []}'' (Some (PDict [(ustr ''items'', PList [])]))"

definition sample_metrics :: string where
  "sample_metrics =
     ''# TYPE kubernetes_build_info gauge'' @ [CHR 0x0A]
     @ ''kubernetes_build_info{buildDate=\"2020-03-25\",gitVersion=\"v1.18.0\",major=\"1\"} 1''
     @ [CHR 0x0A]"

definition metrics_reply :: "error + response" where
  "metrics_reply = reply 200 sample_metrics None"

definition healthz_reply :: "error + response" where
  "healthz_reply = reply 200 ''ok'' None"

text \<open>Two metrics documents whose build-info line has a label entry that is no pair.\<close>

definition broken_metrics_reply :: "error + response" where
  "broken_metrics_reply =
     reply 200 ''kubernetes_build_info{buildDate,gitVersion=\"v1.18.0\"} 1'' None"

definition empty_labels_reply :: "error + response" where
  "empty_labels_reply = reply 200 ''kubernetes_build_info{} 1'' None"

section \<open>The shape of a pods listing\<close>

text \<open>
  What the agent's API returns for a pods listing, as a reading of the decoded JSON: a
  dictionary whose \<open>items\<close> is a list of pods; a pod has \<open>metadata.name\<close> (a string) and
  \<open>spec.containers\<close>, a list of containers; a container has \<open>name\<close> (a string) and may
  have a \<open>securityContext\<close>, a dictionary that may hold the boolean \<open>privileged\<close>.
\<close>

fun is_str :: "pyval \<Rightarrow> bool" where
  "is_str (PStr s) = True"
| "is_str v = False"

fun is_bool :: "pyval \<Rightarrow> bool" where
  "is_bool (PBool b) = True"
| "is_bool v = False"

fun is_dict :: "pyval \<Rightarrow> bool" where
  "is_dict (PDict kvs) = True"
| "is_dict v = False"

fun list_items :: "pyval \<Rightarrow> pyval list option" where
  "list_items (PList xs) = Some xs"
| "list_items v = None"

definition dict_get :: "pyval \<Rightarrow> string \<Rightarrow> pyval option" where
  "dict_get v k = (case v of PDict kvs \<Rightarrow> map_of kvs (ustr k) | _ \<Rightarrow> None)"

definition is_container :: "pyval \<Rightarrow> bool" where
  "is_container c =
     ((case dict_get c ''name'' of Some n \<Rightarrow> is_str n | None \<Rightarrow> False)
      \<and> (case dict_get c ''securityContext'' of
            None \<Rightarrow> True
          | Some sc \<Rightarrow>
              is_dict sc
              \<and> (case dict_get sc ''privileged'' of None \<Rightarrow> True | Some b \<Rightarrow> is_bool b)))"

definition containers_of :: "pyval \<Rightarrow> pyval list" where
  "containers_of p =
     (case dict_get p ''spec'' of
        Some sp \<Rightarrow>
          (case dict_get sp ''containers'' of
             Some cv \<Rightarrow> (case list_items cv of Some cs \<Rightarrow> cs | None \<Rightarrow> [])
           | None \<Rightarrow> [])
      | None \<Rightarrow> [])"

definition is_pod :: "pyval \<Rightarrow> bool" where
  "is_pod p =
     ((case dict_get p ''metadata'' of
         Some m \<Rightarrow> (case dict_get m ''name'' of Some n \<Rightarrow> is_str n | None \<Rightarrow> False)
       | None \<Rightarrow> False)
      \<and> (case dict_get p ''spec'' of
            Some sp \<Rightarrow>
              (case dict_get sp ''containers'' of
                 Some cv \<Rightarrow>
                   (case list_items cv of Some cs \<Rightarrow> list_all is_container cs | None \<Rightarrow> False)
               | None \<Rightarrow> False)
          | None \<Rightarrow> False))"

definition pods_of :: "pyval \<Rightarrow> pyval list" where
  "pods_of d =
     (case dict_get d ''items'' of
        Some iv \<Rightarrow> (case list_items iv of Some ps \<Rightarrow> ps | None \<Rightarrow> [])
      | None \<Rightarrow> [])"

definition is_pod_list :: "pyval \<Rightarrow> bool" where
  "is_pod_list d =
     (case dict_get d ''items'' of
        Some iv \<Rightarrow> (case list_items iv of Some ps \<Rightarrow> list_all is_pod ps | None \<Rightarrow> False)
      | None \<Rightarrow> False)"

definition pod_name :: "pyval \<Rightarrow> pyval" where
  "pod_name p =
     (case dict_get p ''metadata'' of
        Some m \<Rightarrow> (case dict_get m ''name'' of Some n \<Rightarrow> n | None \<Rightarrow> PNone)
      | None \<Rightarrow> PNone)"

definition container_name :: "pyval \<Rightarrow> pyval" where
  "container_name c = (case dict_get c ''name'' of Some n \<Rightarrow> n | None \<Rightarrow> PNone)"

text \<open>
  Following the spec's words: a container is flagged when its security context declares
  \<open>privileged == true\<close>, and the matches are the (pod name, container name) pairs of the
  flagged containers, in pod-then-container order.
\<close>

definition privileged :: "pyval \<Rightarrow> bool" where
  "privileged c =
     (case dict_get c ''securityContext'' of
        Some sc \<Rightarrow> dict_get sc ''privileged'' = Some (PBool True)
      | None \<Rightarrow> False)"

definition privileged_pairs :: "pyval \<Rightarrow> (pyval \<times> pyval) list" where
  "privileged_pairs d =
     concat (map (\<lambda>p. map (\<lambda>c. (pod_name p, container_name c)) (filter privileged (containers_of p)))
                 (pods_of d))"

text \<open>A listing with two privileged containers, in the first and in the second pod.\<close>

definition privileged_listing :: pyval where
  "privileged_listing =
     PDict [(ustr ''items'', PList
       [PDict [(ustr ''metadata'', PDict [(ustr ''name'', PStr (ustr ''web'')),
                                          (ustr ''namespace'', PStr (ustr ''default''))]),
               (ustr ''spec'', PDict [(ustr ''containers'', PList
                  [PDict [(ustr ''name'', PStr (ustr ''nginx''))],
                   PDict [(ustr ''name'', PStr (ustr ''sidecar'')),
                          (ustr ''securityContext'', PDict [(ustr ''privileged'', PBool True)])]])])],
        PDict [(ustr ''metadata'', PDict [(ustr ''name'', PStr (ustr ''kube-proxy'')),
                                          (ustr ''namespace'', PStr (ustr ''kube-system''))]),
               (ustr ''spec'', PDict [(ustr ''containers'', PList
                  [PDict [(ustr ''name'', PStr (ustr ''proxy'')),
                          (ustr ''securityContext'', PDict [(ustr ''privileged'', PBool True)])]])])],
        PDict [(ustr ''metadata'', PDict [(ustr ''name'', PStr (ustr ''dns''))]),
               (ustr ''spec'', PDict [(ustr ''containers'', PList
                  [PDict [(ustr ''name'', PStr (ustr ''coredns'')),
                          (ustr ''securityContext'', PDict [(ustr ''privileged'', PBool False)])]])])]])]"

definition privileged_reply :: "error + response" where
  "privileged_reply = reply 200 ''{\"items\": [...]}'' (Some privileged_listing)"

text \<open>
  The event of the system-logs proof: the sample secure-port event with the session its
  prober stored on it, and an agent that serves the given text as its audit log.
\<close>

definition proof_event :: SecureKubeletEvent where
  "proof_event = event sample_hunter"

definition audit_net :: "string \<Rightarrow> network" where
  "audit_net txt =
     table_net [(ustr ''https://10.0.0.7:10250/logs/audit/audit.log'', reply 200 txt None)]"

definition audit_line :: string where
  "audit_line = ''type=PROCTITLE msg=audit(1612:88): proctitle=2F62696E2F7368002D63''"

definition mixed_audit_lines :: string where
  "mixed_audit_lines = ''proctitle=2F62696E2F7368002D63 proctitle=zsh''"

section \<open>Basic facts\<close>

lemma and_then_Inl [simp]: "and_then (Inl e) f = Inl e"
  by (simp add: and_then_def)

lemma and_then_Inr [simp]: "and_then (Inr x) f = f x"
  by (simp add: and_then_def)

lemma and_then_eq_Inr: "and_then r f = Inr y \<longleftrightarrow> (\<exists>x. r = Inr x \<and> f x = Inr y)"
  by (cases r) simp_all

lemma Inr_eq_and_then: "Inr y = and_then r f \<longleftrightarrow> (\<exists>x. r = Inr x \<and> f x = Inr y)"
  by (cases r) auto

lemma py_next_raises: "py_next v d = Inl TypeError"
  by (cases v) simp_all

text \<open>A finding of a block was yielded by one of its statements.\<close>

lemma gen_seq_mem:
  "x \<in> set (fst (gen_seq ss)) \<Longrightarrow> \<exists>fs. Inr fs \<in> set ss \<and> x \<in> set fs"
  by (induction ss rule: gen_seq.induct) auto

lemma gen_seq_stops: "gen_seq (map Inr fss @ Inl e # rest) = (concat fss, Some e)"
  by (induction fss) simp_all

lemma gen_seq_all: "gen_seq (map Inr fss) = (concat fss, None)"
  by (induction fss) simp_all

lemma test_port_forward_None: "test_port_forward U net cfg dh = Inr r \<Longrightarrow> r = PNone"
  by (auto simp: test_port_forward_def and_then_eq_Inr)

text \<open>The findings the battery can yield.\<close>

lemma battery_findings:
  assumes "Inr fs \<in> set (battery U net cfg dh)" and "x \<in> set fs"
  shows "(\<exists>n. x = Vuln (ExposedRunningPodsHandler n))
       \<or> (\<exists>c. c \<noteq> [] \<and> x = Vuln (ExposedKubeletCmdline c))
       \<or> x = Vuln ExposedContainerLogsHandler \<or> x = Vuln ExposedExecHandler
       \<or> x = Vuln ExposedRunHandler \<or> x = Vuln ExposedAttachHandler
       \<or> x = Vuln ExposedSystemLogs"
  using assms
  by (auto simp: battery_def and_then_eq_Inr Inr_eq_and_then dest!: test_port_forward_None
           split: if_splits option.splits)

text \<open>Outside a pod, the choice of a target ends in \<open>None\<close> or in an exception.\<close>

lemma get_random_pod_no_target: "get_random_pod self = Inr v \<Longrightarrow> v = PNone"
  by (auto simp: get_random_pod_def and_then_eq_Inr py_next_raises split: if_splits)

lemma gen_append_mem:
  "x \<in> set (fst (gen_append g h)) \<Longrightarrow> x \<in> set (fst g) \<or> x \<in> set (fst h)"
  by (auto simp: gen_append_def split: option.splits)

lemma test_handlers_findings:
  assumes "x \<in> set (fst (test_handlers U net cfg self))"
  shows "(\<exists>n. x = Vuln (ExposedRunningPodsHandler n))
       \<or> (\<exists>c. c \<noteq> [] \<and> x = Vuln (ExposedKubeletCmdline c))
       \<or> x = Vuln ExposedContainerLogsHandler \<or> x = Vuln ExposedExecHandler
       \<or> x = Vuln ExposedRunHandler \<or> x = Vuln ExposedAttachHandler
       \<or> x = Vuln ExposedSystemLogs"
proof -
  from assms obtain dh where "x \<in> set (fst (gen_seq (battery U net cfg dh)))"
    by (auto simp: test_handlers_def try_except_def split: sum.splits if_splits)
  then obtain fs where "Inr fs \<in> set (battery U net cfg dh)" "x \<in> set fs"
    using gen_seq_mem by blast
  then show ?thesis by (rule battery_findings)
qed

lemma Secure_execute_findings:
  assumes "x \<in> set (fst (Secure_execute U net cfg self))"
  shows "x = Vuln AnonymousAuthEnabled
       \<or> (\<exists>pods v. ExposedPodsHandler pods = Inr v \<and> x = Vuln v)
       \<or> (\<exists>hz. truthy hz \<and> x = Vuln (ExposedHealthzHandler U hz))
       \<or> x \<in> set (fst (test_handlers U net cfg
                         (self\<lparr>pods_endpoint_data :=
                            (case Secure_get_pods_endpoint net cfg self of Inr pd \<Rightarrow> pd | Inl e \<Rightarrow> PNone)\<rparr>)))"
proof -
  let ?rest = "(case Secure_get_pods_endpoint net cfg self of
          Inl e \<Rightarrow> ([], Some e)
        | Inr pods_data \<Rightarrow>
       (case Secure_check_healthz_endpoint net cfg self of
          Inl e \<Rightarrow> ([], Some e)
        | Inr healthz \<Rightarrow>
            gen_append
              (gen_seq
                 [if truthy pods_data then
                    yield_vuln (and_then (getitem pods_data (ustr ''items'')) ExposedPodsHandler)
                  else Inr [],
                  if truthy healthz then Inr [Vuln (ExposedHealthzHandler U healthz)] else Inr []])
              (test_handlers U net cfg (self\<lparr>pods_endpoint_data := pods_data\<rparr>))))"
  from assms have "x = Vuln AnonymousAuthEnabled \<or> x \<in> set (fst ?rest)"
    unfolding Secure_execute_def by (auto dest!: gen_append_mem split: if_splits)
  moreover
  { assume "x \<in> set (fst ?rest)"
    then obtain pd hz where pd: "Secure_get_pods_endpoint net cfg self = Inr pd"
      and x: "x \<in> set (fst (gen_append
              (gen_seq
                 [if truthy pd then
                    yield_vuln (and_then (getitem pd (ustr ''items'')) ExposedPodsHandler)
                  else Inr [],
                  if truthy hz then Inr [Vuln (ExposedHealthzHandler U hz)] else Inr []])
              (test_handlers U net cfg (self\<lparr>pods_endpoint_data := pd\<rparr>))))"
      by (auto split: sum.splits)
    from gen_append_mem [OF x] have ?thesis
    proof
      assume "x \<in> set (fst (gen_seq
                 [if truthy pd then
                    yield_vuln (and_then (getitem pd (ustr ''items'')) ExposedPodsHandler)
                  else Inr [],
                  if truthy hz then Inr [Vuln (ExposedHealthzHandler U hz)] else Inr []]))"
      then obtain fs where "Inr fs \<in> set [if truthy pd then
                    yield_vuln (and_then (getitem pd (ustr ''items'')) ExposedPodsHandler)
                  else Inr [],
                  if truthy hz then Inr [Vuln (ExposedHealthzHandler U hz)] else Inr []]" "x \<in> set fs"
        using gen_seq_mem by blast
      then show ?thesis
        by (auto simp: yield_vuln_def and_then_eq_Inr Inr_eq_and_then split: if_splits)
    next
      assume "x \<in> set (fst (test_handlers U net cfg (self\<lparr>pods_endpoint_data := pd\<rparr>)))"
      with pd show ?thesis by simp
    qed }
  ultimately show ?thesis by blast
qed

lemma vclass_simps:
  "vclass AnonymousAuthEnabled = C_AnonymousAuthEnabled"
  "vclass (ExposedHealthzHandler U hz) = C_ExposedHealthzHandler"
  "vclass (ExposedRunningPodsHandler n) = C_ExposedRunningPodsHandler"
  "vclass (ExposedKubeletCmdline c) = C_ExposedKubeletCmdline"
  "vclass ExposedContainerLogsHandler = C_ExposedContainerLogsHandler"
  "vclass ExposedExecHandler = C_ExposedExecHandler"
  "vclass ExposedRunHandler = C_ExposedRunHandler"
  "vclass ExposedPortForwardHandler = C_ExposedPortForwardHandler"
  "vclass ExposedAttachHandler = C_ExposedAttachHandler"
  "vclass ExposedSystemLogs = C_ExposedSystemLogs"
  by (simp_all add: AnonymousAuthEnabled_def ExposedHealthzHandler_def ExposedRunningPodsHandler_def
      ExposedKubeletCmdline_def ExposedContainerLogsHandler_def ExposedExecHandler_def
      ExposedRunHandler_def ExposedPortForwardHandler_def ExposedAttachHandler_def
      ExposedSystemLogs_def)

lemma ExposedPodsHandler_class:
  "ExposedPodsHandler pods = Inr v \<Longrightarrow> vclass v = C_ExposedPodsHandler"
  by (auto simp: ExposedPodsHandler_def and_then_eq_Inr)

lemma PrivilegedContainers_class:
  "PrivilegedContainers U cs = Inr v \<Longrightarrow> vclass v = C_PrivilegedContainers"
  by (auto simp: PrivilegedContainers_def split: list.splits)

lemma ustr_inj [simp]: "ustr a = ustr b \<longleftrightarrow> a = b"
  by (auto simp: ustr_def inj_map_eq_map [OF inj_of_char])

lemma ustr_append [simp]: "ustr a @ ustr b = ustr (a @ b)"
  by (simp add: ustr_def)

lemma ustr_Nil [simp]: "ustr [] = []"
  by (simp add: ustr_def)

lemma ustr_Nil_iff [simp]: "ustr a = [] \<longleftrightarrow> a = []"
  by (simp add: ustr_def)

text \<open>The URLs of the probes, for the pod of the scanner itself and for any path.\<close>

lemma kube_pod_urls:
  assumes "dh_pod dh = PDict [(ustr ''name'', PStr (ustr ''kube-hunter'')),
                              (ustr ''namespace'', PStr (ustr ''default'')),
                              (ustr ''container'', PStr (ustr ''kube-hunter''))]"
  shows "logs_url U dh = Inr (dh_path dh @ ustr ''containerLogs/default/kube-hunter/kube-hunter'')"
    and "exec_url U dh =
           Inr (dh_path dh @ ustr ''exec/default/kube-hunter/kube-hunter?command=&input=1&output=1&tty=1'')"
    and "pf_url U dh = Inr (dh_path dh @ ustr ''portForward/default/kube-hunter?port=80'')"
    and "attach_url U dh =
           Inr (dh_path dh @ ustr ''attach/default/kube-hunter/kube-hunter?command=&input=1&output=1&tty=1'')"
  using assms
  by (simp_all add: logs_url_def exec_url_def pf_url_def attach_url_def py_format_def ustr_def
        str_int_def)

lemma fixed_urls:
  "run_url U dh = Inr (dh_path dh @ ustr ''run/test/test/test?cmd='')"
  "logs_endpoint_url U dh = Inr (dh_path dh @ ustr ''logs/'')"
  "pods_url dh = dh_path dh @ ustr ''runningpods''"
  "pprof_cmdline_url dh = dh_path dh @ ustr ''debug/pprof/cmdline''"
  by (simp_all add: run_url_def logs_endpoint_url_def pods_url_def pprof_cmdline_url_def
        py_format_def ustr_def)

lemma sample_hunter_simps:
  "path sample_hunter = ustr ''https://{self.event.host}:10250''"
  "kubehunter_pod sample_hunter = PDict [(ustr ''name'', PStr (ustr ''kube-hunter'')),
                   (ustr ''namespace'', PStr (ustr ''default'')),
                   (ustr ''container'', PStr (ustr ''kube-hunter''))]"
  "session sample_hunter = \<lparr>headers = [(ustr ''Authorization'', ustr ''Bearer t0k3n'')]\<rparr>"
  "anonymous_auth (event sample_hunter) = True"
  "pods_endpoint_data sample_hunter = PStr []"
  by (simp_all add: sample_hunter_def SecureKubeletPortHunter_init_def sample_event_def Let_def)

lemma sample_handlers_simps:
  "dh_path sample_handlers = ustr ''https://{self.event.host}:10250''"
  "dh_pod sample_handlers = PDict [(ustr ''name'', PStr (ustr ''kube-hunter'')),
                   (ustr ''namespace'', PStr (ustr ''default'')),
                   (ustr ''container'', PStr (ustr ''kube-hunter''))]"
  by (simp_all add: sample_handlers_def DebugHandlers_init_def sample_hunter_simps)

lemma session_get_table:
  "session_get (table_net tbl) s rq =
     (case map_of tbl (url rq) of None \<Rightarrow> Inl RequestException | Some r \<Rightarrow> r)"
  by (simp add: session_get_def table_net_def)

lemma sample_urls:
  "logs_url U sample_handlers =
     Inr (ustr ''https://{self.event.host}:10250containerLogs/default/kube-hunter/kube-hunter'')"
  "exec_url U sample_handlers =
     Inr (ustr ''https://{self.event.host}:10250exec/default/kube-hunter/kube-hunter?command=&input=1&output=1&tty=1'')"
  "pf_url U sample_handlers =
     Inr (ustr ''https://{self.event.host}:10250portForward/default/kube-hunter?port=80'')"
  "attach_url U sample_handlers =
     Inr (ustr ''https://{self.event.host}:10250attach/default/kube-hunter/kube-hunter?command=&input=1&output=1&tty=1'')"
  "run_url U sample_handlers = Inr (ustr ''https://{self.event.host}:10250run/test/test/test?cmd='')"
  "logs_endpoint_url U sample_handlers = Inr (ustr ''https://{self.event.host}:10250logs/'')"
  "pods_url sample_handlers = ustr ''https://{self.event.host}:10250runningpods''"
  "pprof_cmdline_url sample_handlers = ustr ''https://{self.event.host}:10250debug/pprof/cmdline''"
  by (simp_all add: kube_pod_urls [OF sample_handlers_simps(2)] fixed_urls sample_handlers_simps(1))

lemma py_in_samples:
  "py_in (ustr ''/cri/exec/'') (ustr ''<a href=\"/cri/exec/x\">Found</a>'')"
  "py_in (ustr ''/cri/attach/'') (ustr ''<a href=\"/cri/attach/x\">Found</a>'')"
  "py_in (ustr ''<pre>'') (ustr ''<pre>audit/</pre>'')"
  "py_in (ustr ''items'') (ustr ''{\"items\": []}'')"
  "\<not> py_in (ustr ''items'') (ustr ''ok'')"
  by (simp_all add: ustr_def)

text \<open>The probes on the two sample ports.\<close>

lemma probes_exec_fails:
  "test_running_pods net_exec_fails selftest_config sample_handlers =
     Inr (PDict [(ustr ''items'', PList [PDict []])])"
  "test_pprof_cmdline net_exec_fails selftest_config sample_handlers = Inr (Some (ustr ''kubelet''))"
  "test_container_logs U net_exec_fails selftest_config sample_handlers = Inr True"
  "test_exec_container U net_exec_fails selftest_config sample_handlers = Inl RequestException"
  "test_run_container U net_exec_fails selftest_config sample_handlers = Inr True"
  "test_port_forward U net_exec_fails selftest_config sample_handlers = Inr PNone"
  "test_attach_container U net_exec_fails selftest_config sample_handlers = Inr True"
  "test_logs_endpoint U net_exec_fails selftest_config sample_handlers = Inr True"
  by (simp_all add: test_running_pods_def test_pprof_cmdline_def test_container_logs_def
        test_exec_container_def test_run_container_def test_port_forward_def
        test_attach_container_def test_logs_endpoint_def net_exec_fails_def session_get_table
        sample_urls get_request_def secure_replies_def reply_def json_def py_in_samples)

lemma probes_all_exposed:
  "test_running_pods net_all_exposed selftest_config sample_handlers =
     Inr (PDict [(ustr ''items'', PList [PDict []])])"
  "test_pprof_cmdline net_all_exposed selftest_config sample_handlers = Inr (Some (ustr ''kubelet''))"
  "test_container_logs U net_all_exposed selftest_config sample_handlers = Inr True"
  "test_exec_container U net_all_exposed selftest_config sample_handlers = Inr True"
  "test_run_container U net_all_exposed selftest_config sample_handlers = Inr True"
  "test_port_forward U net_all_exposed selftest_config sample_handlers = Inr PNone"
  "test_attach_container U net_all_exposed selftest_config sample_handlers = Inr True"
  "test_logs_endpoint U net_all_exposed selftest_config sample_handlers = Inr True"
  by (simp_all add: test_running_pods_def test_pprof_cmdline_def test_container_logs_def
        test_exec_container_def test_run_container_def test_port_forward_def
        test_attach_container_def test_logs_endpoint_def net_all_exposed_def session_get_table
        sample_urls get_request_def secure_replies_def reply_def json_def py_in_samples)

lemma battery_exec_fails:
  "battery U net_exec_fails selftest_config sample_handlers =
     map Inr [[Vuln (ExposedRunningPodsHandler 1)], [Vuln (ExposedKubeletCmdline (ustr ''kubelet''))],
              [Vuln ExposedContainerLogsHandler]]
     @ Inl RequestException
     # [Inr [Vuln ExposedRunHandler], Inr [], Inr [Vuln ExposedAttachHandler],
        Inr [Vuln ExposedSystemLogs]]"
  by (simp add: battery_def probes_exec_fails)

lemma battery_all_exposed:
  "battery U net_all_exposed selftest_config sample_handlers =
     map Inr [[Vuln (ExposedRunningPodsHandler 1)], [Vuln (ExposedKubeletCmdline (ustr ''kubelet''))],
              [Vuln ExposedContainerLogsHandler], [Vuln ExposedExecHandler],
              [Vuln ExposedRunHandler], [], [Vuln ExposedAttachHandler],
              [Vuln ExposedSystemLogs]]"
  by (simp add: battery_def probes_all_exposed)

lemma test_handlers_selftest:
  assumes "pod cfg" and "truthy (kubehunter_pod self)"
  shows "test_handlers U net cfg self =
           try_except (gen_seq (battery U net cfg
              (DebugHandlers_init (path self) (kubehunter_pod self) (session self))))"
  using assms by (simp add: test_handlers_def)

lemma sample_handlers_of_hunter:
  "DebugHandlers_init (path sample_hunter) (kubehunter_pod sample_hunter) (session sample_hunter)
     = sample_handlers"
  by (simp add: sample_handlers_def)

lemma test_handlers_exec_fails:
  "test_handlers U net_exec_fails selftest_config (sample_hunter\<lparr>pods_endpoint_data := pd\<rparr>) =
     ([Vuln (ExposedRunningPodsHandler 1), Vuln (ExposedKubeletCmdline (ustr ''kubelet'')),
       Vuln ExposedContainerLogsHandler], None)"
proof -
  have "pod selftest_config" by (simp add: selftest_config_def)
  moreover have "truthy (kubehunter_pod (sample_hunter\<lparr>pods_endpoint_data := pd\<rparr>))"
    by (simp add: sample_hunter_simps)
  ultimately show ?thesis
    by (simp add: test_handlers_selftest sample_handlers_of_hunter battery_exec_fails
          gen_seq_stops try_except_def del: map_append)
qed

lemma test_handlers_all_exposed:
  "test_handlers U net_all_exposed selftest_config (sample_hunter\<lparr>pods_endpoint_data := pd\<rparr>) =
     ([Vuln (ExposedRunningPodsHandler 1), Vuln (ExposedKubeletCmdline (ustr ''kubelet'')),
       Vuln ExposedContainerLogsHandler, Vuln ExposedExecHandler, Vuln ExposedRunHandler,
       Vuln ExposedAttachHandler, Vuln ExposedSystemLogs], None)"
proof -
  have "pod selftest_config" by (simp add: selftest_config_def)
  moreover have "truthy (kubehunter_pod (sample_hunter\<lparr>pods_endpoint_data := pd\<rparr>))"
    by (simp add: sample_hunter_simps)
  ultimately show ?thesis
    by (simp add: test_handlers_selftest sample_handlers_of_hunter battery_all_exposed
          gen_seq_all try_except_def)
qed

lemma sample_secure_fetches:
  "Secure_get_pods_endpoint net_exec_fails selftest_config sample_hunter = Inr (PDict [(ustr ''items'', PList [])])"
  "Secure_check_healthz_endpoint net_exec_fails selftest_config sample_hunter = Inr (PStr (ustr ''ok''))"
  "Secure_get_pods_endpoint net_all_exposed selftest_config sample_hunter = Inr (PDict [(ustr ''items'', PList [])])"
  "Secure_check_healthz_endpoint net_all_exposed selftest_config sample_hunter = Inr (PStr (ustr ''ok''))"
  by (simp_all add: Secure_get_pods_endpoint_def Secure_check_healthz_endpoint_def
        Secure_pods_url_def Secure_healthz_url_def sample_hunter_simps net_exec_fails_def
        net_all_exposed_def session_get_table table_net_def get_request_def secure_replies_def
        reply_def json_def py_in_samples)

lemma Secure_execute_exec_fails:
  "fst (Secure_execute U net_exec_fails selftest_config sample_hunter) =
     [Vuln AnonymousAuthEnabled,
      Vuln \<lparr>vclass = C_ExposedPodsHandler, name = ustr ''Exposed Pods'', component = Kubelet,
        category = InformationDisclosure, vid = None,
        evidence = Some (ustr ''count: 0''), payload = Pods (PList [])\<rparr>,
      Vuln (ExposedHealthzHandler U (PStr (ustr ''ok''))),
      Vuln (ExposedRunningPodsHandler 1), Vuln (ExposedKubeletCmdline (ustr ''kubelet'')),
      Vuln ExposedContainerLogsHandler]"
  by (simp add: Secure_execute_def sample_secure_fetches sample_hunter_simps gen_append_def
        yield_vuln_def ExposedPodsHandler_def test_handlers_exec_fails str_int_def ustr_def)

lemma test_handlers_cong:
  assumes "path a = path b" "session a = session b" "kubehunter_pod a = kubehunter_pod b"
  shows "test_handlers U net cfg (a\<lparr>pods_endpoint_data := pd\<rparr>) =
         test_handlers U net cfg (b\<lparr>pods_endpoint_data := pd\<rparr>)"
proof -
  have "get_random_pod (a\<lparr>pods_endpoint_data := pd\<rparr>) = get_random_pod (b\<lparr>pods_endpoint_data := pd\<rparr>)"
    by (simp add: get_random_pod_def)
  then show ?thesis
    using assms by (auto simp: test_handlers_def split: sum.splits)
qed

lemma Secure_execute_cong:
  assumes "path a = path b" "session a = session b" "kubehunter_pod a = kubehunter_pod b"
      and "anonymous_auth (event a) = anonymous_auth (event b)"
  shows "Secure_execute U net cfg a = Secure_execute U net cfg b"
proof -
  have 1: "Secure_get_pods_endpoint net cfg a = Secure_get_pods_endpoint net cfg b"
    using assms by (simp add: Secure_get_pods_endpoint_def Secure_pods_url_def)
  have 2: "Secure_check_healthz_endpoint net cfg a = Secure_check_healthz_endpoint net cfg b"
    using assms by (simp add: Secure_check_healthz_endpoint_def Secure_healthz_url_def)
  show ?thesis
    unfolding Secure_execute_def 1 2 test_handlers_cong [OF assms(1-3)] assms(4) ..
qed

lemma gen_seq_four: "fst (gen_seq [Inr a, Inr b, Inr c, d]) = a @ b @ c @ yielded d"
  by (cases d) simp_all

lemma ReadOnly_yields_fst:
  "fst (ReadOnly_yields U ver pc hz pd) =
     (case ver of None \<Rightarrow> [] | Some v \<Rightarrow>
        if v \<noteq> [] then [K8sVersionDisclosure v (ustr ''/metrics'') (ustr ''on Kubelet'')] else [])
     @ (case pc of None \<Rightarrow> [] | Some cs \<Rightarrow> yielded (yield_vuln (PrivilegedContainers U cs)))
     @ (if truthy hz then [Vuln (ExposedHealthzHandler U hz)] else [])
     @ (if truthy pd then
          yielded (yield_vuln (and_then (getitem pd (ustr ''items'')) ExposedPodsHandler))
        else [])"
proof -
  have 1: "(case ver of None \<Rightarrow> Inr []
            | Some v \<Rightarrow> if v \<noteq> [] then Inr [K8sVersionDisclosure v (ustr ''/metrics'') (ustr ''on Kubelet'')]
                        else Inr [])
           = Inr (case ver of None \<Rightarrow> [] | Some v \<Rightarrow>
               if v \<noteq> [] then [K8sVersionDisclosure v (ustr ''/metrics'') (ustr ''on Kubelet'')] else [])"
    by (simp split: option.splits)
  have 2: "(case pc of None \<Rightarrow> Inr []
            | Some cs \<Rightarrow> if cs \<noteq> [] then yield_vuln (PrivilegedContainers U cs) else Inr [])
           = Inr (case pc of None \<Rightarrow> [] | Some cs \<Rightarrow> yielded (yield_vuln (PrivilegedContainers U cs)))"
    by (simp add: yield_vuln_def PrivilegedContainers_def split: option.splits list.splits)
  have 3: "(if truthy hz then Inr [Vuln (ExposedHealthzHandler U hz)] else Inr [])
           = Inr (if truthy hz then [Vuln (ExposedHealthzHandler U hz)] else [])"
    by simp
  have 4: "(if truthy pd then
             yield_vuln (and_then (getitem pd (ustr ''items'')) ExposedPodsHandler)
           else Inr []) = d \<Longrightarrow>
           yielded d = (if truthy pd then
               yielded (yield_vuln (and_then (getitem pd (ustr ''items'')) ExposedPodsHandler))
             else [])" for d
    by auto
  show ?thesis
    unfolding ReadOnly_yields_def 1 2 3 gen_seq_four using 4 by simp
qed

lemma yielded_mem:
  "x \<in> set (yielded (yield_vuln r)) \<Longrightarrow> \<exists>v. r = Inr v \<and> x = Vuln v"
  by (cases r) (simp_all add: yield_vuln_def)

lemma ReadOnly_execute_findings:
  assumes "x \<in> set (fst (ReadOnly_execute U net cfg self))"
  shows "(\<exists>v. v \<noteq> [] \<and> x = K8sVersionDisclosure v (ustr ''/metrics'') (ustr ''on Kubelet''))
       \<or> (\<exists>cs v. PrivilegedContainers U cs = Inr v \<and> x = Vuln v)
       \<or> (\<exists>hz. truthy hz \<and> x = Vuln (ExposedHealthzHandler U hz))
       \<or> (\<exists>pods v. ExposedPodsHandler pods = Inr v \<and> x = Vuln v)"
proof -
  from assms obtain ver pc hz pd where "x \<in> set (fst (ReadOnly_yields U ver pc hz pd))"
    by (auto simp: ReadOnly_execute_def split: sum.splits)
  then show ?thesis
    unfolding ReadOnly_yields_fst
    by (auto split: option.splits if_splits dest!: yielded_mem simp: and_then_eq_Inr)
qed

lemma bare_simps:
  "evidence AnonymousAuthEnabled = None" "payload AnonymousAuthEnabled = NoPayload"
  "evidence ExposedContainerLogsHandler = None" "payload ExposedContainerLogsHandler = NoPayload"
  "evidence ExposedExecHandler = None" "payload ExposedExecHandler = NoPayload"
  "evidence ExposedRunHandler = None" "payload ExposedRunHandler = NoPayload"
  "evidence ExposedPortForwardHandler = None" "payload ExposedPortForwardHandler = NoPayload"
  "evidence ExposedAttachHandler = None" "payload ExposedAttachHandler = NoPayload"
  "evidence ExposedSystemLogs = None" "payload ExposedSystemLogs = NoPayload"
  by (simp_all add: AnonymousAuthEnabled_def ExposedContainerLogsHandler_def ExposedExecHandler_def
      ExposedRunHandler_def ExposedPortForwardHandler_def ExposedAttachHandler_def
      ExposedSystemLogs_def)

lemma populated_simps:
  "payload (ExposedHealthzHandler U hz) = Status hz"
  "evidence (ExposedHealthzHandler U hz) = Some (ustr ''status: '' @ py_str U hz)"
  "payload (ExposedRunningPodsHandler n) = Count n"
  "evidence (ExposedRunningPodsHandler n) = Some (str_int (int n) @ ustr '' running pods'')"
  "payload (ExposedKubeletCmdline c) = Cmdline c"
  "evidence (ExposedKubeletCmdline c) = Some (ustr ''cmdline: '' @ c)"
  by (simp_all add: ExposedHealthzHandler_def ExposedRunningPodsHandler_def
      ExposedKubeletCmdline_def)

lemma populated_constructed:
  "ExposedPodsHandler pods = Inr v \<Longrightarrow> payload v = Pods pods \<and> evidence v \<noteq> None"
  "PrivilegedContainers U cs = Inr w \<Longrightarrow> payload w = Containers cs \<and> evidence w \<noteq> None"
  by (auto simp: ExposedPodsHandler_def PrivilegedContainers_def and_then_eq_Inr split: list.splits)

lemma Secure_execute_all_exposed:
  "fst (Secure_execute U net_all_exposed selftest_config sample_hunter) =
     [Vuln AnonymousAuthEnabled,
      Vuln \<lparr>vclass = C_ExposedPodsHandler, name = ustr ''Exposed Pods'', component = Kubelet,
        category = InformationDisclosure, vid = None,
        evidence = Some (ustr ''count: 0''), payload = Pods (PList [])\<rparr>,
      Vuln (ExposedHealthzHandler U (PStr (ustr ''ok''))),
      Vuln (ExposedRunningPodsHandler 1), Vuln (ExposedKubeletCmdline (ustr ''kubelet'')),
      Vuln ExposedContainerLogsHandler, Vuln ExposedExecHandler, Vuln ExposedRunHandler,
      Vuln ExposedAttachHandler, Vuln ExposedSystemLogs]"
  by (simp add: Secure_execute_def sample_secure_fetches sample_hunter_simps gen_append_def
        yield_vuln_def ExposedPodsHandler_def test_handlers_all_exposed str_int_def ustr_def)

lemma readonly_hunter_path: "path readonly_hunter = ustr ''http://10.0.0.7:10255''"
proof -
  have "str_int 10255 = ustr ''10255''"
    by (simp add: str_int_def ustr_def)
  then show ?thesis
    by (simp add: readonly_hunter_def ReadOnlyKubeletPortHunter_init_def readonly_event_def)
qed

lemma ro_net_fetches:
  "ReadOnly_get_pods_endpoint (ro_net a b c) cfg readonly_hunter =
     and_then a (\<lambda>r. if py_in (ustr ''items'') (resp_text r) then json r else Inr PNone)"
  "get_k8s_version (ro_net a b c) cfg readonly_hunter =
     and_then b (\<lambda>r. scan_lines (py_split (resp_text r) 10))"
  "ReadOnly_check_healthz_endpoint (ro_net a b c) cfg readonly_hunter =
     and_then c (\<lambda>r. Inr (if status_code r = 200 then PStr (resp_text r) else PBool False))"
  by (simp_all add: ReadOnly_get_pods_endpoint_def get_k8s_version_def
        ReadOnly_check_healthz_endpoint_def readonly_hunter_path ro_net_def table_net_def
        get_request_def)

lemma sample_metrics_lines:
  "py_split (ustr sample_metrics) 10 =
     [ustr ''# TYPE kubernetes_build_info gauge'',
      ustr ''kubernetes_build_info{buildDate=\"2020-03-25\",gitVersion=\"v1.18.0\",major=\"1\"} 1'',
      []]"
  by (simp add: sample_metrics_def ustr_def)

lemma sample_label_entries:
  "label_entries (ustr ''kubernetes_build_info{buildDate=\"2020-03-25\",gitVersion=\"v1.18.0\",major=\"1\"} 1'') =
     [ustr ''buildDate=\"2020-03-25\"'', ustr ''gitVersion=\"v1.18.0\"'', ustr ''major=\"1\"'']"
  by (simp add: label_entries_def py_slice_def slice_index_def ustr_def Let_def)

lemma sample_entry_splits:
  "py_split (ustr ''buildDate=\"2020-03-25\"'') 61 = [ustr ''buildDate'', ustr ''\"2020-03-25\"'']"
  "py_split (ustr ''gitVersion=\"v1.18.0\"'') 61 = [ustr ''gitVersion'', ustr ''\"v1.18.0\"'']"
  "py_strip (ustr ''\"v1.18.0\"'') 34 = ustr ''v1.18.0''"
  by (simp_all add: ustr_def py_strip_def)

lemma sample_startswith:
  "\<not> startswith (ustr ''# TYPE kubernetes_build_info gauge'') (ustr ''kubernetes_build_info'')"
  "startswith (ustr ''kubernetes_build_info{buildDate=\"2020-03-25\",gitVersion=\"v1.18.0\",major=\"1\"} 1'')
     (ustr ''kubernetes_build_info'')"
  by (simp_all add: ustr_def)

lemma sample_ro_fetches:
  "and_then pods_reply (\<lambda>r. if py_in (ustr ''items'') (resp_text r) then json r else Inr PNone)
     = Inr (PDict [(ustr ''items'', PList [])])"
  "and_then metrics_reply (\<lambda>r. scan_lines (py_split (resp_text r) 10)) = Inr (Some (ustr ''v1.18.0''))"
  "and_then healthz_reply
     (\<lambda>r. Inr (if status_code r = 200 then PStr (resp_text r) else PBool False)) = Inr (PStr (ustr ''ok''))"
  by (simp_all add: pods_reply_def metrics_reply_def healthz_reply_def reply_def json_def
        py_in_samples sample_metrics_lines sample_label_entries sample_entry_splits
        sample_startswith)

lemma find_privileged_containers_empty:
  "find_privileged_containers (h\<lparr>pods_endpoint_data := PDict [(ustr ''items'', PList [])]\<rparr>) = Inr None"
  by (simp add: find_privileged_containers_def)

lemma filter_yielded_class:
  assumes "\<And>v. r = Inr v \<Longrightarrow> vclass v \<noteq> c"
  shows "filter (\<lambda>x. finding_class x = Some c) (yielded (yield_vuln r)) = []"
  using assms by (cases r) (simp_all add: yield_vuln_def)

lemma ReadOnly_yields_health:
  "filter (\<lambda>x. finding_class x = Some C_ExposedHealthzHandler) (fst (ReadOnly_yields U ver pc hz pd)) =
     (if truthy hz then [Vuln (ExposedHealthzHandler U hz)] else [])"
proof -
  have 1: "filter (\<lambda>x. finding_class x = Some C_ExposedHealthzHandler)
             (yielded (yield_vuln (PrivilegedContainers U cs))) = []" for cs
    by (rule filter_yielded_class) (simp add: PrivilegedContainers_class)
  have 2: "filter (\<lambda>x. finding_class x = Some C_ExposedHealthzHandler)
             (yielded (yield_vuln (and_then (getitem pd (ustr ''items'')) ExposedPodsHandler))) = []"
    by (rule filter_yielded_class) (auto simp: and_then_eq_Inr ExposedPodsHandler_class)
  show ?thesis
    unfolding ReadOnly_yields_fst
    by (simp add: 1 2 vclass_simps split: option.splits)
qed

lemma test_handlers_no_health:
  "filter (\<lambda>x. finding_class x = Some C_ExposedHealthzHandler) (fst (test_handlers U net cfg s)) = []"
proof -
  have "finding_class x \<noteq> Some C_ExposedHealthzHandler"
    if "x \<in> set (fst (test_handlers U net cfg s))" for x
    using test_handlers_findings [OF that] by (auto simp: vclass_simps)
  then show ?thesis
    by (simp add: filter_empty_conv)
qed

lemma Secure_execute_health:
  assumes "Secure_get_pods_endpoint net cfg s = Inr pd"
      and "Secure_check_healthz_endpoint net cfg s = Inr hz"
      and "(if truthy pd then
              yield_vuln (and_then (getitem pd (ustr ''items'')) ExposedPodsHandler)
            else Inr []) = Inr ps"
  shows "filter (\<lambda>x. finding_class x = Some C_ExposedHealthzHandler) (fst (Secure_execute U net cfg s)) =
           (if truthy hz then [Vuln (ExposedHealthzHandler U hz)] else [])"
proof -
  have ps: "filter (\<lambda>x. finding_class x = Some C_ExposedHealthzHandler) ps = []"
    using assms(3)
    by (auto simp: filter_empty_conv yield_vuln_def and_then_eq_Inr ExposedPodsHandler_class
             split: if_splits)
  show ?thesis
    using assms ps
    by (simp add: Secure_execute_def gen_append_def test_handlers_no_health vclass_simps)
qed

lemma Secure_execute_no_health:
  assumes "Secure_check_healthz_endpoint net cfg s = Inr hz" and "\<not> truthy hz"
  shows "filter (\<lambda>x. finding_class x = Some C_ExposedHealthzHandler) (fst (Secure_execute U net cfg s)) = []"
proof (cases "Secure_get_pods_endpoint net cfg s")
  case (Inl e)
  then show ?thesis
    by (simp add: Secure_execute_def gen_append_def vclass_simps)
next
  case (Inr pd)
  show ?thesis
  proof (cases "if truthy pd then
              yield_vuln (and_then (getitem pd (ustr ''items'')) ExposedPodsHandler)
            else Inr []")
    case (Inl e)
    with Inr assms show ?thesis
      by (simp add: Secure_execute_def gen_append_def vclass_simps)
  next
    case (Inr ps)
    from Secure_execute_health [OF \<open>Secure_get_pods_endpoint net cfg s = Inr pd\<close> assms(1) Inr] assms(2)
    show ?thesis by simp
  qed
qed

lemma ro_net_healthz_request:
  "ro_net a b c
     ((get_request (path readonly_hunter @ ustr ''/healthz'') (network_timeout cfg))\<lparr>verify := False\<rparr>)
     = c"
  by (simp add: ro_net_def table_net_def get_request_def readonly_hunter_path)

lemma sample_secure_healthz_request:
  "net_all_exposed
     ((get_request (Secure_healthz_url sample_hunter) (network_timeout cfg))\<lparr>verify := False\<rparr>)
     = Inr \<lparr>status_code = 200, resp_text = ustr ''ok'', resp_json = None\<rparr>"
  by (simp add: Secure_healthz_url_def sample_hunter_simps net_all_exposed_def table_net_def
        get_request_def secure_replies_def reply_def)

lemma py_split_not_Nil: "py_split s c \<noteq> []"
  by (induction s) (auto split: list.splits)

lemma py_split_nosep: "c \<notin> set k \<Longrightarrow> py_split k c = [k]"
  by (induction k) auto

lemma py_split_append: "c \<notin> set k \<Longrightarrow> py_split (k @ c # w) c = k # py_split w c"
  by (induction k) auto

lemma py_split_pair: "c \<notin> set k \<Longrightarrow> c \<notin> set w \<Longrightarrow> py_split (k @ c # w) c = [k, w]"
  by (simp add: py_split_append py_split_nosep)

lemma length_py_split: "length (py_split s c) = Suc (count_list s c)"
  by (induction s) (auto split: list.splits simp: py_split_not_Nil)

lemma scan_infos_malformed:
  "count_list x 61 \<noteq> 1 \<Longrightarrow> scan_infos (x # rest) = Inl ValueError"
  using length_py_split [of x 61]
  by (auto split: list.splits)

lemma scan_infos_skip:
  assumes "list_all (\<lambda>x. \<exists>k w. x = k @ 61 # w \<and> 61 \<notin> set k \<and> 61 \<notin> set w
                               \<and> k \<noteq> ustr ''gitVersion'') es"
  shows "scan_infos (es @ rest) = scan_infos rest"
  using assms by (induction es) (auto simp: py_split_pair)

lemma scan_infos_found:
  "61 \<notin> set v \<Longrightarrow> scan_infos ((ustr ''gitVersion'' @ 61 # v) # rest) = Inr (Some (py_strip v 34))"
proof -
  assume v: "61 \<notin> set v"
  have "61 \<notin> set (ustr ''gitVersion'')"
    by (simp add: ustr_def)
  from py_split_pair [OF this v] show ?thesis
    by simp
qed

lemma scan_lines_skip:
  "list_all (\<lambda>l. \<not> startswith l (ustr ''kubernetes_build_info'')) pre \<Longrightarrow>
   scan_lines (pre @ rest) = scan_lines rest"
  by (induction pre) auto

lemma scan_lines_none:
  "list_all (\<lambda>l. \<not> startswith l (ustr ''kubernetes_build_info'')) ls \<Longrightarrow> scan_lines ls = Inr None"
  using scan_lines_skip [of ls "[]"] by simp

lemma scan_infos_error: "scan_infos es = Inl e \<Longrightarrow> e = ValueError"
  by (induction es) (auto split: list.splits if_splits)

lemma scan_lines_error: "scan_lines ls = Inl e \<Longrightarrow> e = ValueError"
  by (induction ls) (auto split: sum.splits option.splits if_splits dest: scan_infos_error)

lemma dropWhile_absent: "q \<notin> set xs \<Longrightarrow> dropWhile (\<lambda>x. x = q) xs = xs"
  by (cases xs) auto

lemma py_strip_quoted: "q \<notin> set w \<Longrightarrow> py_strip (q # w @ [q]) q = w"
proof -
  assume q: "q \<notin> set w"
  then have 1: "dropWhile (\<lambda>x. x = q) (w @ [q]) = w @ [q]" if "w \<noteq> []"
    using that by (cases w) auto
  from q have 2: "dropWhile (\<lambda>x. x = q) (rev w) = rev w"
    by (intro dropWhile_absent) simp
  show ?thesis
  proof (cases "w = []")
    case True
    then show ?thesis by (simp add: py_strip_def)
  next
    case False
    with 1 2 show ?thesis by (simp add: py_strip_def)
  qed
qed

lemma ro_net_metrics_request:
  "ro_net a b c (get_request (path readonly_hunter @ ustr ''/metrics'') (network_timeout cfg)) = b"
  by (simp add: ro_net_def table_net_def get_request_def readonly_hunter_path)

lemma dict_get_SomeD:
  "dict_get v k = Some x \<Longrightarrow> \<exists>kvs. v = PDict kvs \<and> map_of kvs (ustr k) = Some x"
  by (cases v) (auto simp: dict_get_def)

lemma dict_get_PDict [simp]: "dict_get (PDict kvs) k = map_of kvs (ustr k)"
  by (simp add: dict_get_def)

lemma is_strD: "is_str v \<Longrightarrow> \<exists>s. v = PStr s"
  by (cases v) simp_all

lemma is_boolD: "is_bool v \<Longrightarrow> \<exists>b. v = PBool b"
  by (cases v) simp_all

lemma is_dictD: "is_dict v \<Longrightarrow> \<exists>kvs. v = PDict kvs"
  by (cases v) simp_all

lemma list_itemsD: "list_items v = Some xs \<Longrightarrow> v = PList xs"
  by (cases v) simp_all

lemma is_container_cases:
  assumes "is_container c"
  obtains kvs n where "c = PDict kvs" "map_of kvs (ustr ''name'') = Some (PStr n)"
      "map_of kvs (ustr ''securityContext'') = None"
  | kvs n scl where "c = PDict kvs" "map_of kvs (ustr ''name'') = Some (PStr n)"
      "map_of kvs (ustr ''securityContext'') = Some (PDict scl)"
      "map_of scl (ustr ''privileged'') = None"
  | kvs n scl b where "c = PDict kvs" "map_of kvs (ustr ''name'') = Some (PStr n)"
      "map_of kvs (ustr ''securityContext'') = Some (PDict scl)"
      "map_of scl (ustr ''privileged'') = Some (PBool b)"
proof -
  from assms obtain nv where nv: "dict_get c ''name'' = Some nv" "is_str nv"
    by (auto simp: is_container_def split: option.splits)
  then obtain kvs n where c: "c = PDict kvs" "map_of kvs (ustr ''name'') = Some (PStr n)"
    by (auto dest!: dict_get_SomeD is_strD)
  show ?thesis
  proof (cases "map_of kvs (ustr ''securityContext'')")
    case None
    with c that(1) show ?thesis by blast
  next
    case (Some sc)
    with assms c obtain scl where scl: "sc = PDict scl"
      by (auto simp: is_container_def dest!: is_dictD)
    show ?thesis
    proof (cases "map_of scl (ustr ''privileged'')")
      case None
      with c Some scl that(2) show ?thesis by blast
    next
      case (Some pv)
      with assms c \<open>map_of kvs (ustr ''securityContext'') = Some sc\<close> scl
      obtain b where "pv = PBool b"
        by (auto simp: is_container_def dest!: is_boolD)
      with c \<open>map_of kvs (ustr ''securityContext'') = Some sc\<close> scl Some that(3)
      show ?thesis by blast
    qed
  qed
qed

lemma container_step:
  assumes "is_container c"
  shows "\<exists>n sc pr. getitem c (ustr ''name'') = Inr (PStr n) \<and> container_name c = PStr n
           \<and> py_get c (ustr ''securityContext'') (PDict []) = Inr sc
           \<and> py_get sc (ustr ''privileged'') PNone = Inr pr \<and> truthy pr = privileged c"
  using assms
  by (cases rule: is_container_cases) (simp_all add: privileged_def container_name_def)

lemma scan_containers_shape:
  assumes "list_all is_container cs"
      and "getitem pd (ustr ''metadata'') = Inr m" and "getitem m (ustr ''name'') = Inr pn"
  shows "scan_containers pd cs = Inr (map (\<lambda>c. (pn, container_name c)) (filter privileged cs))"
  using assms
proof (induction cs)
  case Nil
  then show ?case by simp
next
  case (Cons c cs)
  then have ih: "scan_containers pd cs = Inr (map (\<lambda>c. (pn, container_name c)) (filter privileged cs))"
    by simp
  from Cons.prems(1) have "is_container c" by simp
  from container_step [OF this] obtain n sc pr where
    "getitem c (ustr ''name'') = Inr (PStr n)" "container_name c = PStr n"
    "py_get c (ustr ''securityContext'') (PDict []) = Inr sc"
    "py_get sc (ustr ''privileged'') PNone = Inr pr" "truthy pr = privileged c"
    by blast
  with ih Cons.prems(2,3) show ?case
    by simp
qed

lemma is_pod_cases:
  assumes "is_pod p"
  obtains kvs m n sp cs where "p = PDict kvs" "map_of kvs (ustr ''metadata'') = Some (PDict m)"
    "map_of m (ustr ''name'') = Some (PStr n)" "map_of kvs (ustr ''spec'') = Some (PDict sp)"
    "map_of sp (ustr ''containers'') = Some (PList cs)" "list_all is_container cs"
proof -
  from assms obtain mv nv where m: "dict_get p ''metadata'' = Some mv" "dict_get mv ''name'' = Some nv"
      "is_str nv"
    by (auto simp: is_pod_def split: option.splits)
  from assms obtain sv cv cs where s: "dict_get p ''spec'' = Some sv" "dict_get sv ''containers'' = Some cv"
      "list_items cv = Some cs" "list_all is_container cs"
    by (auto simp: is_pod_def split: option.splits)
  from m s show ?thesis
    by (auto dest!: dict_get_SomeD is_strD list_itemsD intro: that)
qed

lemma scan_pods_shape:
  assumes "list_all is_pod ps"
  shows "scan_pods ps =
           Inr (concat (map (\<lambda>p. map (\<lambda>c. (pod_name p, container_name c))
                                    (filter privileged (containers_of p))) ps))"
  using assms
proof (induction ps)
  case Nil
  then show ?case by simp
next
  case (Cons p ps)
  then have ih: "scan_pods ps =
           Inr (concat (map (\<lambda>p. map (\<lambda>c. (pod_name p, container_name c))
                                    (filter privileged (containers_of p))) ps))"
    by simp
  from Cons.prems have "is_pod p" by simp
  then show ?case
  proof (cases rule: is_pod_cases)
    case (1 kvs m n sp cs)
    have "scan_containers p cs = Inr (map (\<lambda>c. (PStr n, container_name c)) (filter privileged cs))"
      by (rule scan_containers_shape [OF 1(6), of p "PDict m"]) (simp_all add: 1)
    with 1 ih show ?thesis
      by (simp add: pod_name_def containers_of_def)
  qed
qed

lemma find_privileged_containers_shape:
  assumes "is_pod_list d"
  shows "find_privileged_containers (self\<lparr>pods_endpoint_data := d\<rparr>) =
           Inr (if privileged_pairs d = [] then None else Some (privileged_pairs d))"
proof -
  from assms obtain iv ps where "dict_get d ''items'' = Some iv" "list_items iv = Some ps"
      "list_all is_pod ps"
    by (auto simp: is_pod_list_def split: option.splits)
  then obtain kvs where d: "d = PDict kvs" "map_of kvs (ustr ''items'') = Some (PList ps)"
      and ps: "list_all is_pod ps"
    by (auto dest!: dict_get_SomeD list_itemsD)
  from d have "kvs \<noteq> []" by auto
  with d scan_pods_shape [OF ps] show ?thesis
    by (simp add: find_privileged_containers_def privileged_pairs_def pods_of_def)
qed

lemma ReadOnly_yields_privileged:
  "filter (\<lambda>x. finding_class x = Some C_PrivilegedContainers) (fst (ReadOnly_yields U ver pc hz pd)) =
     (case pc of None \<Rightarrow> [] | Some cs \<Rightarrow> yielded (yield_vuln (PrivilegedContainers U cs)))"
proof -
  have 1: "filter (\<lambda>x. finding_class x = Some C_PrivilegedContainers)
             (yielded (yield_vuln (PrivilegedContainers U cs)))
           = yielded (yield_vuln (PrivilegedContainers U cs))" for cs
    by (cases "PrivilegedContainers U cs") (simp_all add: yield_vuln_def PrivilegedContainers_class)
  have 2: "filter (\<lambda>x. finding_class x = Some C_PrivilegedContainers)
             (yielded (yield_vuln (and_then (getitem pd (ustr ''items'')) ExposedPodsHandler))) = []"
    by (rule filter_yielded_class) (auto simp: and_then_eq_Inr ExposedPodsHandler_class)
  show ?thesis
    unfolding ReadOnly_yields_fst
    by (simp add: 1 2 vclass_simps split: option.splits)
qed

lemma privileged_pairs_nonempty:
  "(privileged_pairs d \<noteq> []) = (\<exists>p\<in>set (pods_of d). \<exists>c\<in>set (containers_of p). privileged c)"
  by (auto simp: privileged_pairs_def filter_empty_conv)

lemma privileged_listing_facts:
  "is_pod_list privileged_listing"
  "privileged_pairs privileged_listing =
     [(PStr (ustr ''web''), PStr (ustr ''sidecar'')), (PStr (ustr ''kube-proxy''), PStr (ustr ''proxy''))]"
  by (simp_all add: privileged_listing_def is_pod_list_def is_pod_def is_container_def
        privileged_pairs_def pods_of_def containers_of_def privileged_def pod_name_def
        container_name_def)

lemma logs_path_format:
  "py_format U (ustr ''logs/{path}'') [(ustr ''path'', PStr (ustr ''audit/audit.log''))]
     = Inr (ustr ''logs/audit/audit.log'')"
  by (simp add: py_format_def ustr_def)

lemma decode_proctitles_ok:
  "map fromhex ms = map Inr bss \<Longrightarrow> map utf8_decode bss = map Inr ts \<Longrightarrow>
   decode_proctitles ms = Inr (map (\<lambda>t. py_replace t 0 32) ts)"
proof (induction ms arbitrary: bss ts)
  case Nil
  then show ?case by simp
next
  case (Cons m ms)
  from Cons.prems(1) obtain bs bss' where bss: "bss = bs # bss'" "fromhex m = Inr bs"
      "map fromhex ms = map Inr bss'"
    by (cases bss) auto
  with Cons.prems(2) obtain t ts' where ts: "ts = t # ts'" "utf8_decode bs = Inr t"
      "map utf8_decode bss' = map Inr ts'"
    by (cases ts) auto
  from Cons.IH [OF bss(3) ts(3)] bss ts show ?case
    by simp
qed

lemma decode_proctitles_fail:
  assumes "m \<in> set ms"
      and "fromhex m = Inl err \<or> (fromhex m = Inr bs \<and> utf8_decode bs = Inl err)"
  shows "\<exists>e. decode_proctitles ms = Inl e"
  using assms(1)
proof (induction ms)
  case Nil
  then show ?case by simp
next
  case (Cons a ms)
  show ?case
  proof (cases "a = m")
    case True
    with assms(2) show ?thesis by auto
  next
    case False
    with Cons obtain e where "decode_proctitles ms = Inl e" by auto
    then show ?thesis
      by (cases "fromhex a"; cases "utf8_decode (projr (fromhex a))") auto
  qed
qed

lemma ProveSystemLogs_execute_fetch:
  assumes "ev_session e = Some s"
      and "session_get net s
             ((get_request (ProveSystemLogs_base_url e @ ustr ''/logs/audit/audit.log'')
                 (network_timeout cfg))\<lparr>verify := False\<rparr>) = Inr r"
  shows "ProveSystemLogs_execute U net cfg e v =
           and_then (decode_proctitles (findall_proctitle U (resp_text r))) (\<lambda>proctitles.
             Inr (v\<lparr>payload := Proctitles proctitles,
                    evidence := Some (ustr ''audit log: ''
                                      @ py_repr U (PList (map PStr proctitles)))\<rparr>))"
  using assms by (simp add: ProveSystemLogs_execute_def logs_path_format)

lemma audit_net_request:
  "session_get (audit_net txt) s
     ((get_request (ProveSystemLogs_base_url proof_event @ ustr ''/logs/audit/audit.log'')
         (network_timeout cfg))\<lparr>verify := False\<rparr>)
     = Inr \<lparr>status_code = 200, resp_text = ustr txt, resp_json = None\<rparr>"
proof -
  have "str_int 10250 = ustr ''10250''"
    by (simp add: str_int_def ustr_def)
  then have "ProveSystemLogs_base_url proof_event = ustr ''https://10.0.0.7:10250''"
    by (simp add: ProveSystemLogs_base_url_def proof_event_def sample_hunter_def
          SecureKubeletPortHunter_init_def Let_def sample_event_def)
  then show ?thesis
    by (simp add: audit_net_def session_get_table get_request_def reply_def)
qed

lemma proof_event_session:
  "ev_session proof_event = Some \<lparr>headers = [(ustr ''Authorization'', ustr ''Bearer t0k3n'')]\<rparr>"
  by (simp add: proof_event_def sample_hunter_def SecureKubeletPortHunter_init_def Let_def
        sample_event_def)

lemma sample_matches:
  "findall_proctitle ascii_db (ustr audit_line) = [ustr ''2F62696E2F7368002D63'']"
  "findall_proctitle ascii_db (ustr mixed_audit_lines) = [ustr ''2F62696E2F7368002D63'', ustr ''zsh'']"
  "findall_proctitle ascii_db (ustr ''proctitle=FF'') = [ustr ''FF'']"
  by (simp_all add: audit_line_def mixed_audit_lines_def ustr_def is_word_def ascii_db_def)

lemma sample_decoding:
  "fromhex (ustr ''2F62696E2F7368002D63'') = Inr [47, 98, 105, 110, 47, 115, 104, 0, 45, 99]"
  "utf8_decode [47, 98, 105, 110, 47, 115, 104, 0, 45, 99] = Inr [47, 98, 105, 110, 47, 115, 104, 0, 45, 99]"
  "py_replace [47, 98, 105, 110, 47, 115, 104, 0, 45, 99] 0 32 = ustr ''/bin/sh -c''"
  "fromhex (ustr ''zsh'') = Inl ValueError"
  "fromhex (ustr ''FF'') = Inr [255]"
  "utf8_decode [255] = Inl UnicodeDecodeError"
  by (simp_all add: ustr_def hexval_def is_space_def py_replace_def)

lemma sample_repr:
  "py_repr ascii_db (PList [PStr (ustr ''/bin/sh -c'')]) = ustr ''['/bin/sh -c']''"
  by (simp add: repr_str_def repr_char_def ustr_def)

section \<open>The claims\<close>

subsection \<open>C1: a failing probe in the battery\<close>




subsection \<open>C2: the base URL of the secure-port prober\<close>

text \<open>
  C2. For every secure-port event, the prober's path is the literal string
  \<open>https://{self.event.host}:10250\<close>, so the URLs of the pods and health requests and of
  each probe of the battery are the same constants whatever the event; for a target taken
  from a listing, the URL depends on the target only. A run does not depend on the host or
  the port of its event.
\<close>

theorem secure_urls_are_constant:
  "path (SecureKubeletPortHunter_init U e) = ustr ''https://{self.event.host}:10250''
   \<and> Secure_pods_url (SecureKubeletPortHunter_init U e) = ustr ''https://{self.event.host}:10250/pods''
   \<and> Secure_healthz_url (SecureKubeletPortHunter_init U e) =
         ustr ''https://{self.event.host}:10250/healthz''
   \<and> pods_url (DebugHandlers_init (path (SecureKubeletPortHunter_init U e)) pd s) =
         ustr ''https://{self.event.host}:10250runningpods''
   \<and> pprof_cmdline_url (DebugHandlers_init (path (SecureKubeletPortHunter_init U e)) pd s) =
         ustr ''https://{self.event.host}:10250debug/pprof/cmdline''
   \<and> run_url U (DebugHandlers_init (path (SecureKubeletPortHunter_init U e)) pd s) =
         Inr (ustr ''https://{self.event.host}:10250run/test/test/test?cmd='')
   \<and> logs_endpoint_url U (DebugHandlers_init (path (SecureKubeletPortHunter_init U e)) pd s) =
         Inr (ustr ''https://{self.event.host}:10250logs/'')
   \<and> logs_url U (DebugHandlers_init (path (SecureKubeletPortHunter_init U e))
                    (kubehunter_pod (SecureKubeletPortHunter_init U e)) s) =
         Inr (ustr ''https://{self.event.host}:10250containerLogs/default/kube-hunter/kube-hunter'')
   \<and> exec_url U (DebugHandlers_init (path (SecureKubeletPortHunter_init U e))
                    (kubehunter_pod (SecureKubeletPortHunter_init U e)) s) =
         Inr (ustr ''https://{self.event.host}:10250exec/default/kube-hunter/kube-hunter?command=&input=1&output=1&tty=1'')
   \<and> pf_url U (DebugHandlers_init (path (SecureKubeletPortHunter_init U e))
                    (kubehunter_pod (SecureKubeletPortHunter_init U e)) s) =
         Inr (ustr ''https://{self.event.host}:10250portForward/default/kube-hunter?port=80'')
   \<and> attach_url U (DebugHandlers_init (path (SecureKubeletPortHunter_init U e))
                    (kubehunter_pod (SecureKubeletPortHunter_init U e)) s) =
         Inr (ustr ''https://{self.event.host}:10250attach/default/kube-hunter/kube-hunter?command=&input=1&output=1&tty=1'')
   \<and> logs_url U (DebugHandlers_init (path (SecureKubeletPortHunter_init U e)) pd s) =
       logs_url U (DebugHandlers_init (path (SecureKubeletPortHunter_init U e')) pd s')
   \<and> exec_url U (DebugHandlers_init (path (SecureKubeletPortHunter_init U e)) pd s) =
       exec_url U (DebugHandlers_init (path (SecureKubeletPortHunter_init U e')) pd s')
   \<and> pf_url U (DebugHandlers_init (path (SecureKubeletPortHunter_init U e)) pd s) =
       pf_url U (DebugHandlers_init (path (SecureKubeletPortHunter_init U e')) pd s')
   \<and> attach_url U (DebugHandlers_init (path (SecureKubeletPortHunter_init U e)) pd s) =
       attach_url U (DebugHandlers_init (path (SecureKubeletPortHunter_init U e')) pd s')
   \<and> Secure_execute U net cfg (SecureKubeletPortHunter_init U (e\<lparr>host := h, port := p\<rparr>)) =
       Secure_execute U net cfg (SecureKubeletPortHunter_init U e)"
proof -
  have pth: "path (SecureKubeletPortHunter_init U x) = ustr ''https://{self.event.host}:10250''" for x
    by (simp add: SecureKubeletPortHunter_init_def Let_def)
  have kp: "dh_pod (DebugHandlers_init q (kubehunter_pod (SecureKubeletPortHunter_init U e)) s) =
              PDict [(ustr ''name'', PStr (ustr ''kube-hunter'')),
                     (ustr ''namespace'', PStr (ustr ''default'')),
                     (ustr ''container'', PStr (ustr ''kube-hunter''))]" for q
    by (simp add: SecureKubeletPortHunter_init_def Let_def DebugHandlers_init_def)
  have dp: "dh_path (DebugHandlers_init q x y) = q" for q x y
    by (simp add: DebugHandlers_init_def)
  have urls: "logs_url U (DebugHandlers_init q x y) = logs_url U (DebugHandlers_init q x y')"
             "exec_url U (DebugHandlers_init q x y) = exec_url U (DebugHandlers_init q x y')"
             "pf_url U (DebugHandlers_init q x y) = pf_url U (DebugHandlers_init q x y')"
             "attach_url U (DebugHandlers_init q x y) = attach_url U (DebugHandlers_init q x y')"
    for q x y y'
    by (simp_all add: logs_url_def exec_url_def pf_url_def attach_url_def DebugHandlers_init_def)
  have run: "Secure_execute U net cfg (SecureKubeletPortHunter_init U (e\<lparr>host := h, port := p\<rparr>)) =
             Secure_execute U net cfg (SecureKubeletPortHunter_init U e)"
    by (rule Secure_execute_cong) (simp_all add: SecureKubeletPortHunter_init_def Let_def)
  show ?thesis
    by (simp add: pth Secure_pods_url_def Secure_healthz_url_def fixed_urls dp
          kube_pod_urls [OF kp] urls [of _ _ s s'] run)
qed

theorem secure_urls_are_constant_witness:
  "path (SecureKubeletPortHunter_init ascii_db sample_event) =
     path (SecureKubeletPortHunter_init ascii_db other_event)
   \<and> host sample_event \<noteq> host other_event
   \<and> port sample_event \<noteq> port other_event
   \<and> Secure_pods_url (SecureKubeletPortHunter_init ascii_db other_event) =
       ustr ''https://{self.event.host}:10250/pods''"
  using secure_urls_are_constant [of ascii_db sample_event]
        secure_urls_are_constant [of ascii_db other_event]
  by (simp add: sample_event_def other_event_def)

subsection \<open>C5: the fetches of the read-only prober\<close>

text \<open>
  C5 as stated fails. On a read-only port whose pods endpoint refuses the connection while
  the metrics and health endpoints answer, the version and health fetches would each
  succeed, but the run ends with the transport error and yields nothing.
\<close>

theorem pods_failure_suppresses_all_findings:
  "ReadOnly_get_pods_endpoint (ro_net (Inl RequestException) metrics_reply healthz_reply)
       scan_config readonly_hunter = Inl RequestException
   \<and> get_k8s_version (ro_net (Inl RequestException) metrics_reply healthz_reply)
       scan_config readonly_hunter = Inr (Some (ustr ''v1.18.0''))
   \<and> ReadOnly_check_healthz_endpoint (ro_net (Inl RequestException) metrics_reply healthz_reply)
       scan_config readonly_hunter = Inr (PStr (ustr ''ok''))
   \<and> ReadOnly_execute ascii_db (ro_net (Inl RequestException) metrics_reply healthz_reply)
       scan_config readonly_hunter = ([], Some RequestException)"
  by (simp add: ro_net_fetches sample_ro_fetches ReadOnly_execute_def)

text \<open>
  C5, amended. The four operations run in the order pods listing, version, privileged
  scan, health, outside any \<open>try\<close>. If one of them raises, the run ends with that
  exception and yields no finding at all. If none raises, the run yields the findings of the
  four, each decided by the result of its own operation alone: a negative result of one
  does not touch the findings of the others.
\<close>

theorem readonly_run_aborts_or_yields_all:
  "(ReadOnly_get_pods_endpoint net cfg self = Inl e
      \<longrightarrow> ReadOnly_execute U net cfg self = ([], Some e))
   \<and> (ReadOnly_get_pods_endpoint net cfg self = Inr pd \<and> get_k8s_version net cfg self = Inl e
      \<longrightarrow> ReadOnly_execute U net cfg self = ([], Some e))
   \<and> (ReadOnly_get_pods_endpoint net cfg self = Inr pd \<and> get_k8s_version net cfg self = Inr ver
       \<and> find_privileged_containers (self\<lparr>pods_endpoint_data := pd\<rparr>) = Inl e
      \<longrightarrow> ReadOnly_execute U net cfg self = ([], Some e))
   \<and> (ReadOnly_get_pods_endpoint net cfg self = Inr pd \<and> get_k8s_version net cfg self = Inr ver
       \<and> find_privileged_containers (self\<lparr>pods_endpoint_data := pd\<rparr>) = Inr pc
       \<and> ReadOnly_check_healthz_endpoint net cfg self = Inl e
      \<longrightarrow> ReadOnly_execute U net cfg self = ([], Some e))
   \<and> (ReadOnly_get_pods_endpoint net cfg self = Inr pd \<and> get_k8s_version net cfg self = Inr ver
       \<and> find_privileged_containers (self\<lparr>pods_endpoint_data := pd\<rparr>) = Inr pc
       \<and> ReadOnly_check_healthz_endpoint net cfg self = Inr hz
      \<longrightarrow> fst (ReadOnly_execute U net cfg self) =
            (case ver of None \<Rightarrow> [] | Some v \<Rightarrow>
               if v \<noteq> [] then [K8sVersionDisclosure v (ustr ''/metrics'') (ustr ''on Kubelet'')]
               else [])
            @ (case pc of None \<Rightarrow> []
               | Some cs \<Rightarrow> yielded (yield_vuln (PrivilegedContainers U cs)))
            @ (if truthy hz then [Vuln (ExposedHealthzHandler U hz)] else [])
            @ (if truthy pd then
                 yielded (yield_vuln (and_then (getitem pd (ustr ''items'')) ExposedPodsHandler))
               else []))"
  by (simp add: ReadOnly_execute_def ReadOnly_yields_fst)

theorem readonly_run_aborts_or_yields_all_witness:
  "ReadOnly_execute ascii_db (ro_net pods_reply (Inl RequestException) healthz_reply)
       scan_config readonly_hunter = ([], Some RequestException)
   \<and> fst (ReadOnly_execute ascii_db (ro_net pods_reply metrics_reply healthz_reply)
       scan_config readonly_hunter) =
       [K8sVersionDisclosure (ustr ''v1.18.0'') (ustr ''/metrics'') (ustr ''on Kubelet''),
        Vuln (ExposedHealthzHandler ascii_db (PStr (ustr ''ok''))),
        Vuln \<lparr>vclass = C_ExposedPodsHandler, name = ustr ''Exposed Pods'', component = Kubelet,
          category = InformationDisclosure, vid = None,
          evidence = Some (ustr ''count: 0''), payload = Pods (PList [])\<rparr>]"
proof -
  have a: "ReadOnly_get_pods_endpoint (ro_net pods_reply (Inl RequestException) healthz_reply)
             scan_config readonly_hunter = Inr (PDict [(ustr ''items'', PList [])])
           \<and> get_k8s_version (ro_net pods_reply (Inl RequestException) healthz_reply)
             scan_config readonly_hunter = Inl RequestException"
    by (simp add: ro_net_fetches sample_ro_fetches)
  have b: "ReadOnly_get_pods_endpoint (ro_net pods_reply metrics_reply healthz_reply)
             scan_config readonly_hunter = Inr (PDict [(ustr ''items'', PList [])])
           \<and> get_k8s_version (ro_net pods_reply metrics_reply healthz_reply)
             scan_config readonly_hunter = Inr (Some (ustr ''v1.18.0''))
           \<and> find_privileged_containers
               (readonly_hunter\<lparr>pods_endpoint_data := PDict [(ustr ''items'', PList [])]\<rparr>) = Inr None
           \<and> ReadOnly_check_healthz_endpoint (ro_net pods_reply metrics_reply healthz_reply)
             scan_config readonly_hunter = Inr (PStr (ustr ''ok''))"
    by (simp add: ro_net_fetches sample_ro_fetches find_privileged_containers_empty)
  from readonly_run_aborts_or_yields_all
         [THEN conjunct2, THEN conjunct1, rule_format, OF a, of ascii_db]
       readonly_run_aborts_or_yields_all
         [THEN conjunct2, THEN conjunct2, THEN conjunct2, THEN conjunct2, rule_format, OF b,
          of ascii_db]
  show ?thesis
    by (simp add: yield_vuln_def ExposedPodsHandler_def str_int_def ustr_def)
qed

subsection \<open>C6: what a published finding carries\<close>






subsection \<open>C7: the version probe\<close>




subsection \<open>C8: the privileged-container scan\<close>



subsection \<open>C9: the audit-log proof\<close>

text \<open>
  C9 as stated fails. The pattern \<open>proctitle=(\w+)\<close> also matches fields that are not
  hexadecimal, and a hexadecimal field need not be UTF-8: on a log with the field of the
  claim followed by \<open>proctitle=zsh\<close> the hunter raises \<open>ValueError\<close>, on \<open>proctitle=FF\<close> it
  raises \<open>UnicodeDecodeError\<close>; in both cases nothing is decoded or attached.
\<close>

theorem undecodable_proctitle_raises:
  "findall_proctitle ascii_db (ustr mixed_audit_lines) = [ustr ''2F62696E2F7368002D63'', ustr ''zsh'']
   \<and> ProveSystemLogs_execute ascii_db (audit_net mixed_audit_lines) selftest_config proof_event
        ExposedSystemLogs = Inl ValueError
   \<and> findall_proctitle ascii_db (ustr ''proctitle=FF'') = [ustr ''FF'']
   \<and> ProveSystemLogs_execute ascii_db (audit_net ''proctitle=FF'') selftest_config proof_event
        ExposedSystemLogs = Inl UnicodeDecodeError"
  by (simp add: ProveSystemLogs_execute_fetch [OF proof_event_session audit_net_request]
        sample_matches sample_decoding)


text \<open>
  C9, amended. When the audit log is fetched and every field matched by
  \<open>proctitle=(\w+)\<close> is a hexadecimal string (\<open>fromhex\<close> gives bytes) whose bytes are
  UTF-8 (\<open>decode\<close> gives text), the hunter attaches, as \<open>proctitles\<close>, the list of the
  decoded texts with every null replaced by a space, and as evidence the string
  \<open>audit log: \<close> followed by that list as Python prints it; in particular
  \<open>proctitle=2F62696E2F7368002D63\<close> gives \<open>/bin/sh -c\<close>. When some matched field is not
  hexadecimal or not UTF-8, the hunter raises and attaches nothing.
\<close>

theorem audit_log_proof:
  "(ev_session e = Some s
    \<and> session_get net s
         ((get_request (ProveSystemLogs_base_url e @ ustr ''/logs/audit/audit.log'')
             (network_timeout cfg))\<lparr>verify := False\<rparr>) = Inr r
    \<and> map fromhex (findall_proctitle U (resp_text r)) = map Inr bss
    \<and> map utf8_decode bss = map Inr ts
    \<longrightarrow> ProveSystemLogs_execute U net cfg e v =
          Inr (v\<lparr>payload := Proctitles (map (\<lambda>t. py_replace t 0 32) ts),
                 evidence := Some (ustr ''audit log: ''
                   @ py_repr U (PList (map (\<lambda>t. PStr (py_replace t 0 32)) ts)))\<rparr>))
   \<and> (ev_session e = Some s
      \<and> session_get net s
           ((get_request (ProveSystemLogs_base_url e @ ustr ''/logs/audit/audit.log'')
               (network_timeout cfg))\<lparr>verify := False\<rparr>) = Inr r
      \<and> m \<in> set (findall_proctitle U (resp_text r))
      \<and> (fromhex m = Inl err \<or> (fromhex m = Inr bs \<and> utf8_decode bs = Inl err))
      \<longrightarrow> (\<exists>x. ProveSystemLogs_execute U net cfg e v = Inl x))
   \<and> 0 \<notin> set (py_replace (t::pystr) 0 32) \<and> length (py_replace t 0 32) = length t"
proof -
  have 1: "ProveSystemLogs_execute U net cfg e v =
          Inr (v\<lparr>payload := Proctitles (map (\<lambda>t. py_replace t 0 32) ts),
                 evidence := Some (ustr ''audit log: ''
                   @ py_repr U (PList (map (\<lambda>t. PStr (py_replace t 0 32)) ts)))\<rparr>)"
    if "ev_session e = Some s"
       "session_get net s
         ((get_request (ProveSystemLogs_base_url e @ ustr ''/logs/audit/audit.log'')
             (network_timeout cfg))\<lparr>verify := False\<rparr>) = Inr r"
       "map fromhex (findall_proctitle U (resp_text r)) = map Inr bss"
       "map utf8_decode bss = map Inr ts"
    unfolding ProveSystemLogs_execute_fetch [OF that(1,2)] decode_proctitles_ok [OF that(3,4)]
    by (simp add: comp_def)
  have 2: "\<exists>x. ProveSystemLogs_execute U net cfg e v = Inl x"
    if "ev_session e = Some s"
       "session_get net s
         ((get_request (ProveSystemLogs_base_url e @ ustr ''/logs/audit/audit.log'')
             (network_timeout cfg))\<lparr>verify := False\<rparr>) = Inr r"
       "m \<in> set (findall_proctitle U (resp_text r))"
       "fromhex m = Inl err \<or> (fromhex m = Inr bs \<and> utf8_decode bs = Inl err)"
    using decode_proctitles_fail [OF that(3,4)]
    unfolding ProveSystemLogs_execute_fetch [OF that(1,2)] by auto
  have 3: "0 \<notin> set (py_replace (t::pystr) 0 32) \<and> length (py_replace t 0 32) = length t"
    by (auto simp: py_replace_def)
  from 1 2 3 show ?thesis by blast
qed

theorem audit_log_proof_witness:
  "ProveSystemLogs_execute ascii_db (audit_net audit_line) selftest_config proof_event
     ExposedSystemLogs =
     Inr (ExposedSystemLogs\<lparr>payload := Proctitles [ustr ''/bin/sh -c''],
                             evidence := Some (ustr ''audit log: ['/bin/sh -c']'')\<rparr>)
   \<and> (\<exists>x. ProveSystemLogs_execute ascii_db (audit_net mixed_audit_lines) selftest_config
              proof_event ExposedSystemLogs = Inl x)"
proof -
  let ?s = "\<lparr>headers = [(ustr ''Authorization'', ustr ''Bearer t0k3n'')]\<rparr>"
  let ?r = "\<lparr>status_code = 200, resp_text = ustr audit_line, resp_json = None\<rparr>"
  let ?r2 = "\<lparr>status_code = 200, resp_text = ustr mixed_audit_lines, resp_json = None\<rparr>"
  have a: "ev_session proof_event = Some ?s
           \<and> session_get (audit_net audit_line) ?s
               ((get_request (ProveSystemLogs_base_url proof_event @ ustr ''/logs/audit/audit.log'')
                   (network_timeout selftest_config))\<lparr>verify := False\<rparr>) = Inr ?r
           \<and> map fromhex (findall_proctitle ascii_db (resp_text ?r))
               = map Inr [[47, 98, 105, 110, 47, 115, 104, 0, 45, 99]]
           \<and> map utf8_decode [[47, 98, 105, 110, 47, 115, 104, 0, 45, 99]]
               = map Inr [[47, 98, 105, 110, 47, 115, 104, 0, 45, 99]]"
    by (simp add: proof_event_session audit_net_request sample_matches sample_decoding)
  have b: "ev_session proof_event = Some ?s
           \<and> session_get (audit_net mixed_audit_lines) ?s
               ((get_request (ProveSystemLogs_base_url proof_event @ ustr ''/logs/audit/audit.log'')
                   (network_timeout selftest_config))\<lparr>verify := False\<rparr>) = Inr ?r2
           \<and> ustr ''zsh'' \<in> set (findall_proctitle ascii_db (resp_text ?r2))
           \<and> (fromhex (ustr ''zsh'') = Inl ValueError
              \<or> (fromhex (ustr ''zsh'') = Inr [] \<and> utf8_decode [] = Inl ValueError))"
    by (simp add: proof_event_session audit_net_request sample_matches sample_decoding)
  from audit_log_proof
         [where net = "audit_net audit_line" and e = proof_event and s = ?s and r = ?r
            and cfg = selftest_config and U = ascii_db and v = ExposedSystemLogs,
          THEN conjunct1, rule_format, OF a]
       audit_log_proof
         [where net = "audit_net mixed_audit_lines" and e = proof_event and s = ?s and r = ?r2
            and cfg = selftest_config and U = ascii_db and v = ExposedSystemLogs,
          THEN conjunct2, THEN conjunct1, rule_format, OF b]
  show ?thesis
    using sample_repr by (simp add: sample_decoding)
qed

subsection \<open>C10: the port-forward probe\<close>

text \<open>
  C10. On every run of the battery the port-forward probe yields nothing: the method
  returns \<open>None\<close> whatever the endpoint answers (or raises), and no run of the secure-port
  prober publishes a finding of class \<open>ExposedPortForwardHandler\<close>.
\<close>

theorem port_forward_never_published:
  "(case test_port_forward U net cfg dh of Inl e \<Rightarrow> True | Inr r \<Rightarrow> r = PNone)
   \<and> Some C_ExposedPortForwardHandler \<notin> finding_class ` set (fst (test_handlers U net cfg self))
   \<and> Some C_ExposedPortForwardHandler \<notin> finding_class ` set (fst (Secure_execute U net cfg self))"
proof (intro conjI)
  show "case test_port_forward U net cfg dh of Inl e \<Rightarrow> True | Inr r \<Rightarrow> r = PNone"
    by (auto split: sum.splits dest: test_port_forward_None)
  have th: "finding_class x \<noteq> Some C_ExposedPortForwardHandler"
    if "x \<in> set (fst (test_handlers U net cfg s))" for x s
    using test_handlers_findings [OF that] by (auto simp: vclass_simps)
  then show "Some C_ExposedPortForwardHandler \<notin> finding_class ` set (fst (test_handlers U net cfg self))"
    by force
  have "finding_class x \<noteq> Some C_ExposedPortForwardHandler"
    if "x \<in> set (fst (Secure_execute U net cfg self))" for x
    using Secure_execute_findings [OF that] th
    by (auto simp: vclass_simps ExposedPodsHandler_class)
  then show "Some C_ExposedPortForwardHandler \<notin> finding_class ` set (fst (Secure_execute U net cfg self))"
    by force
qed

theorem port_forward_never_published_witness:
  "test_port_forward ascii_db net_all_exposed selftest_config sample_handlers = Inr PNone
   \<and> Some C_ExposedPortForwardHandler
       \<notin> finding_class ` set (fst (test_handlers ascii_db net_all_exposed selftest_config sample_hunter))"
  using port_forward_never_published
          [of ascii_db net_all_exposed selftest_config sample_handlers sample_hunter]
  by (simp add: probes_all_exposed)

subsection \<open>C3: the health finding\<close>

text \<open>
  C3 as stated fails. A health endpoint that answers status 200 with an empty body gives
  no health finding: the prober tests the returned body for truth, and the empty string is
  false. The run below completes normally and yields the version and pods findings only.
\<close>

theorem empty_health_body_yields_no_finding:
  "ro_net pods_reply metrics_reply (reply 200 [] None)
     ((get_request (path readonly_hunter @ ustr ''/healthz'') (network_timeout scan_config))
        \<lparr>verify := False\<rparr>)
     = Inr \<lparr>status_code = 200, resp_text = [], resp_json = None\<rparr>
   \<and> ReadOnly_execute ascii_db (ro_net pods_reply metrics_reply (reply 200 [] None))
        scan_config readonly_hunter =
       ([K8sVersionDisclosure (ustr ''v1.18.0'') (ustr ''/metrics'') (ustr ''on Kubelet''),
         Vuln \<lparr>vclass = C_ExposedPodsHandler, name = ustr ''Exposed Pods'', component = Kubelet,
           category = InformationDisclosure, vid = None,
           evidence = Some (ustr ''count: 0''), payload = Pods (PList [])\<rparr>], None)"
proof -
  have "str_int 0 = ustr ''0''"
    by (simp add: str_int_def ustr_def)
  then have "ReadOnly_execute ascii_db (ro_net pods_reply metrics_reply (reply 200 [] None))
        scan_config readonly_hunter =
       ([K8sVersionDisclosure (ustr ''v1.18.0'') (ustr ''/metrics'') (ustr ''on Kubelet''),
         Vuln \<lparr>vclass = C_ExposedPodsHandler, name = ustr ''Exposed Pods'', component = Kubelet,
           category = InformationDisclosure, vid = None,
           evidence = Some (ustr ''count: 0''), payload = Pods (PList [])\<rparr>], None)"
    by (simp add: ro_net_fetches sample_ro_fetches ReadOnly_execute_def ReadOnly_yields_def
          find_privileged_containers_empty reply_def yield_vuln_def ExposedPodsHandler_def)
  then show ?thesis
    by (simp add: ro_net_healthz_request reply_def)
qed

text \<open>
  C3, amended. For every response of the health endpoint: if its status is not 200 or its
  body is empty, no health finding is emitted; if its status is 200 and its body is not
  empty, then in a run that reaches its \<open>yield\<close> statements (the other fetches of the
  read-only prober do not raise; for the secure-port prober the pods fetch does not raise
  and the pods finding is built) exactly one health finding is emitted, and its status is
  the exact body.
\<close>

theorem health_finding_needs_200_and_body:
  "(net ((get_request (path self @ ustr ''/healthz'') (network_timeout cfg))\<lparr>verify := False\<rparr>) = Inr r
    \<and> (status_code r \<noteq> 200 \<or> resp_text r = [])
    \<longrightarrow> filter (\<lambda>x. finding_class x = Some C_ExposedHealthzHandler)
          (fst (ReadOnly_execute U net cfg self)) = [])
   \<and> (net ((get_request (path self @ ustr ''/healthz'') (network_timeout cfg))\<lparr>verify := False\<rparr>) = Inr r
      \<and> status_code r = 200 \<and> resp_text r \<noteq> []
      \<and> ReadOnly_get_pods_endpoint net cfg self = Inr pd \<and> get_k8s_version net cfg self = Inr ver
      \<and> find_privileged_containers (self\<lparr>pods_endpoint_data := pd\<rparr>) = Inr pc
      \<longrightarrow> filter (\<lambda>x. finding_class x = Some C_ExposedHealthzHandler)
            (fst (ReadOnly_execute U net cfg self))
            = [Vuln (ExposedHealthzHandler U (PStr (resp_text r)))])
   \<and> (net ((get_request (Secure_healthz_url s) (network_timeout cfg))\<lparr>verify := False\<rparr>) = Inr r
      \<and> (status_code r \<noteq> 200 \<or> resp_text r = [])
      \<longrightarrow> filter (\<lambda>x. finding_class x = Some C_ExposedHealthzHandler)
            (fst (Secure_execute U net cfg s)) = [])
   \<and> (net ((get_request (Secure_healthz_url s) (network_timeout cfg))\<lparr>verify := False\<rparr>) = Inr r
      \<and> status_code r = 200 \<and> resp_text r \<noteq> []
      \<and> Secure_get_pods_endpoint net cfg s = Inr pd
      \<and> (if truthy pd then
            yield_vuln (and_then (getitem pd (ustr ''items'')) ExposedPodsHandler)
          else Inr []) = Inr ps
      \<longrightarrow> filter (\<lambda>x. finding_class x = Some C_ExposedHealthzHandler)
            (fst (Secure_execute U net cfg s))
            = [Vuln (ExposedHealthzHandler U (PStr (resp_text r)))])
   \<and> payload (ExposedHealthzHandler U (PStr (resp_text r))) = Status (PStr (resp_text r))"
proof -
  have ro: "ReadOnly_check_healthz_endpoint net cfg self =
              Inr (if status_code r = 200 then PStr (resp_text r) else PBool False)"
    if "net ((get_request (path self @ ustr ''/healthz'') (network_timeout cfg))\<lparr>verify := False\<rparr>) = Inr r"
    using that by (simp add: ReadOnly_check_healthz_endpoint_def)
  have se: "Secure_check_healthz_endpoint net cfg s =
              Inr (if status_code r = 200 then PStr (resp_text r) else PBool False)"
    if "net ((get_request (Secure_healthz_url s) (network_timeout cfg))\<lparr>verify := False\<rparr>) = Inr r"
    using that by (simp add: Secure_check_healthz_endpoint_def)
  have 1: "filter (\<lambda>x. finding_class x = Some C_ExposedHealthzHandler)
                (fst (ReadOnly_execute U net cfg self)) = []"
    if "net ((get_request (path self @ ustr ''/healthz'') (network_timeout cfg))\<lparr>verify := False\<rparr>) = Inr r"
       "status_code r \<noteq> 200 \<or> resp_text r = []"
    using ro [OF that(1)] that(2)
    by (auto simp: ReadOnly_execute_def ReadOnly_yields_health split: sum.splits)
  have 2: "filter (\<lambda>x. finding_class x = Some C_ExposedHealthzHandler)
                (fst (ReadOnly_execute U net cfg self))
                = [Vuln (ExposedHealthzHandler U (PStr (resp_text r)))]"
    if "net ((get_request (path self @ ustr ''/healthz'') (network_timeout cfg))\<lparr>verify := False\<rparr>) = Inr r"
       "status_code r = 200" "resp_text r \<noteq> []"
       "ReadOnly_get_pods_endpoint net cfg self = Inr pd" "get_k8s_version net cfg self = Inr ver"
       "find_privileged_containers (self\<lparr>pods_endpoint_data := pd\<rparr>) = Inr pc"
    using ro [OF that(1)] that(2-)
    by (simp add: ReadOnly_execute_def ReadOnly_yields_health)
  have 3: "filter (\<lambda>x. finding_class x = Some C_ExposedHealthzHandler)
                (fst (Secure_execute U net cfg s)) = []"
    if "net ((get_request (Secure_healthz_url s) (network_timeout cfg))\<lparr>verify := False\<rparr>) = Inr r"
       "status_code r \<noteq> 200 \<or> resp_text r = []"
    using Secure_execute_no_health [OF se [OF that(1)]] that(2) by auto
  have 4: "filter (\<lambda>x. finding_class x = Some C_ExposedHealthzHandler)
                (fst (Secure_execute U net cfg s))
                = [Vuln (ExposedHealthzHandler U (PStr (resp_text r)))]"
    if "net ((get_request (Secure_healthz_url s) (network_timeout cfg))\<lparr>verify := False\<rparr>) = Inr r"
       "status_code r = 200" "resp_text r \<noteq> []"
       "Secure_get_pods_endpoint net cfg s = Inr pd"
       "(if truthy pd then
            yield_vuln (and_then (getitem pd (ustr ''items'')) ExposedPodsHandler)
          else Inr []) = Inr ps"
    using Secure_execute_health [OF that(4) se [OF that(1)] that(5)] that(2,3) by simp
  show ?thesis
    using 1 2 3 4 by (simp add: populated_simps)
qed

theorem health_finding_needs_200_and_body_witness:
  "filter (\<lambda>x. finding_class x = Some C_ExposedHealthzHandler)
     (fst (ReadOnly_execute ascii_db (ro_net pods_reply metrics_reply healthz_reply)
             scan_config readonly_hunter))
     = [Vuln (ExposedHealthzHandler ascii_db (PStr (ustr ''ok'')))]
   \<and> filter (\<lambda>x. finding_class x = Some C_ExposedHealthzHandler)
     (fst (ReadOnly_execute ascii_db (ro_net pods_reply metrics_reply (reply 404 ''404 page not found'' None))
             scan_config readonly_hunter)) = []
   \<and> filter (\<lambda>x. finding_class x = Some C_ExposedHealthzHandler)
     (fst (Secure_execute ascii_db net_all_exposed selftest_config sample_hunter))
     = [Vuln (ExposedHealthzHandler ascii_db (PStr (ustr ''ok'')))]"
proof -
  have a: "ro_net pods_reply metrics_reply healthz_reply
             ((get_request (path readonly_hunter @ ustr ''/healthz'') (network_timeout scan_config))
                \<lparr>verify := False\<rparr>)
             = Inr \<lparr>status_code = 200, resp_text = ustr ''ok'', resp_json = None\<rparr>
           \<and> status_code \<lparr>status_code = 200, resp_text = ustr ''ok'', resp_json = None\<rparr> = 200
           \<and> resp_text \<lparr>status_code = 200, resp_text = ustr ''ok'', resp_json = None\<rparr> \<noteq> []
           \<and> ReadOnly_get_pods_endpoint (ro_net pods_reply metrics_reply healthz_reply)
               scan_config readonly_hunter = Inr (PDict [(ustr ''items'', PList [])])
           \<and> get_k8s_version (ro_net pods_reply metrics_reply healthz_reply)
               scan_config readonly_hunter = Inr (Some (ustr ''v1.18.0''))
           \<and> find_privileged_containers
               (readonly_hunter\<lparr>pods_endpoint_data := PDict [(ustr ''items'', PList [])]\<rparr>) = Inr None"
    by (simp add: ro_net_fetches sample_ro_fetches find_privileged_containers_empty
          ro_net_healthz_request healthz_reply_def reply_def)
  have b: "ro_net pods_reply metrics_reply (reply 404 ''404 page not found'' None)
             ((get_request (path readonly_hunter @ ustr ''/healthz'') (network_timeout scan_config))
                \<lparr>verify := False\<rparr>)
             = Inr \<lparr>status_code = 404, resp_text = ustr ''404 page not found'', resp_json = None\<rparr>
           \<and> (status_code \<lparr>status_code = 404, resp_text = ustr ''404 page not found'', resp_json = None\<rparr> \<noteq> 200
              \<or> resp_text \<lparr>status_code = 404, resp_text = ustr ''404 page not found'', resp_json = None\<rparr> = [])"
    by (simp add: ro_net_healthz_request reply_def)
  have c: "net_all_exposed
             ((get_request (Secure_healthz_url sample_hunter) (network_timeout selftest_config))
                \<lparr>verify := False\<rparr>)
             = Inr \<lparr>status_code = 200, resp_text = ustr ''ok'', resp_json = None\<rparr>
           \<and> status_code \<lparr>status_code = 200, resp_text = ustr ''ok'', resp_json = None\<rparr> = 200
           \<and> resp_text \<lparr>status_code = 200, resp_text = ustr ''ok'', resp_json = None\<rparr> \<noteq> []
           \<and> Secure_get_pods_endpoint net_all_exposed selftest_config sample_hunter
               = Inr (PDict [(ustr ''items'', PList [])])
           \<and> (if truthy (PDict [(ustr ''items'', PList [])]) then
                 yield_vuln (and_then (getitem (PDict [(ustr ''items'', PList [])]) (ustr ''items''))
                               ExposedPodsHandler)
               else Inr [])
               = Inr [Vuln \<lparr>vclass = C_ExposedPodsHandler, name = ustr ''Exposed Pods'',
                        component = Kubelet, category = InformationDisclosure, vid = None,
                        evidence = Some (ustr ''count: '' @ str_int 0), payload = Pods (PList [])\<rparr>]"
    by (simp add: sample_secure_fetches sample_secure_healthz_request
          yield_vuln_def ExposedPodsHandler_def)
  from health_finding_needs_200_and_body
         [where net = "ro_net pods_reply metrics_reply healthz_reply" and self = readonly_hunter
            and cfg = scan_config and U = ascii_db
            and r = "\<lparr>status_code = 200, resp_text = ustr ''ok'', resp_json = None\<rparr>",
          THEN conjunct2, THEN conjunct1, rule_format, OF a]
       health_finding_needs_200_and_body
         [where net = "ro_net pods_reply metrics_reply (reply 404 ''404 page not found'' None)"
            and self = readonly_hunter and cfg = scan_config and U = ascii_db
            and r = "\<lparr>status_code = 404, resp_text = ustr ''404 page not found'', resp_json = None\<rparr>",
          THEN conjunct1, rule_format, OF b]
       health_finding_needs_200_and_body
         [where net = net_all_exposed and s = sample_hunter and cfg = selftest_config
            and U = ascii_db
            and r = "\<lparr>status_code = 200, resp_text = ustr ''ok'', resp_json = None\<rparr>",
          THEN conjunct2, THEN conjunct2, THEN conjunct2, THEN conjunct1, rule_format, OF c]
  show ?thesis by simp
qed

subsection \<open>C4: the pod selector\<close>

text \<open>
  C4. The pod selector is meant to return the first container of the chosen pod. On the
  listing with one Running pod in kube-system and one Pending pod in default, outside a
  pod, it finds the kube-system pod and then raises \<open>TypeError\<close>: \<open>next\<close> is applied to
  the list of containers, which is not an iterator.
\<close>

theorem get_random_pod_raises_on_a_match:
  "get_random_pod (sample_hunter\<lparr>pods_endpoint_data := sample_listing\<rparr>) = Inl TypeError"
  by (simp add: get_random_pod_def sample_listing_def sample_pod_def is_default_pod_def
        is_kubesystem_pod_def py_next_raises)

end
